theory Spec2Isabelle
  imports Complex_Main "HOL-Library.AList"
begin

section \<open>JavaScript values and strings\<close>

text \<open>
  The journal keeps its answers in plain JavaScript data that is written to and read back
  from local storage as JSON. The values are modelled by one datatype. An object is the
  association list of its own properties, in insertion order; an array is the list of its
  elements. Strings are lists of code units below 256; numbers are integers (the code
  modelled here never computes with a number taken from a document).

  Properties inherited from the built-in prototypes are not part of a value. Where the
  program reads or writes a property under a name that is taken from the data and that
  name could reach an inherited member, where it writes a named property into an array, or
  where it would convert a value of a document to a number,
  the model stops with \<open>Unmodelled\<close> instead of guessing a result. \<open>Unmodelled\<close> is
  not an exception of the program and no \<open>catch\<close> of the model handles it.
\<close>

datatype jsval =
    JUndefined
  | JNull
  | JBool bool
  | JNum int
  | JStr string
  | JArr "jsval list"
  | JObj "(string \<times> jsval) list"

datatype error =
    TypeError
  | SyntaxError
  | InvalidDataStructure
  | RequestFailed
  | NetworkError
  | UnexpectedResponse
  | Unmodelled

text \<open>\<open>try { m } catch (error) { h }\<close>\<close>

definition try_catch :: "error + 'a \<Rightarrow> (error \<Rightarrow> error + 'a) \<Rightarrow> error + 'a" where
  "try_catch m h =
     (case m of
        Inr x \<Rightarrow> Inr x
      | Inl e \<Rightarrow> if e = Unmodelled then Inl Unmodelled else h e)"

text \<open>Sequencing of two steps, the second of which is skipped when the first throws.\<close>

definition and_then :: "error + 'a \<Rightarrow> ('a \<Rightarrow> error + 'b) \<Rightarrow> error + 'b" where
  "and_then m f = (case m of Inl e \<Rightarrow> Inl e | Inr x \<Rightarrow> f x)"

text \<open>\<open>!!v\<close>: the falsy values are \<open>undefined\<close>, \<open>null\<close>, \<open>false\<close>, \<open>0\<close> and \<open>''\<close>.\<close>

fun truthy :: "jsval \<Rightarrow> bool" where
  "truthy JUndefined = False"
| "truthy JNull = False"
| "truthy (JBool b) = b"
| "truthy (JNum n) = (n \<noteq> 0)"
| "truthy (JStr s) = (s \<noteq> [])"
| "truthy (JArr xs) = True"
| "truthy (JObj ps) = True"

fun typeof :: "jsval \<Rightarrow> string" where
  "typeof JUndefined = ''undefined''"
| "typeof JNull = ''object''"
| "typeof (JBool b) = ''boolean''"
| "typeof (JNum n) = ''number''"
| "typeof (JStr s) = ''string''"
| "typeof (JArr xs) = ''object''"
| "typeof (JObj ps) = ''object''"

fun isArray :: "jsval \<Rightarrow> bool" where
  "isArray (JArr xs) = True"
| "isArray v = False"

subsection \<open>Strings\<close>

text \<open>
  White space and line terminators removed by \<open>String.prototype.trim\<close>, among the code
  units below 256: tab, line feed, vertical tab, form feed, carriage return, space and the
  no-break space.
\<close>

definition is_space :: "char \<Rightarrow> bool" where
  "is_space c \<longleftrightarrow>
     c \<in> set [CHR 0x09, CHR 0x0A, CHR 0x0B, CHR 0x0C, CHR 0x0D, CHR 0x20, CHR 0xA0]"

definition trim :: "string \<Rightarrow> string" where
  "trim s = rev (dropWhile is_space (rev (dropWhile is_space s)))"

text \<open>\<open>s.split(c)\<close> for a one-character separator: \<open>''\<close> splits into \<open>['']\<close>.\<close>

fun split :: "char \<Rightarrow> string \<Rightarrow> string list" where
  "split c [] = [[]]"
| "split c (x # xs) =
     (if x = c then [] # split c xs
      else (case split c xs of
              [] \<Rightarrow> [[x]]
            | p # ps \<Rightarrow> (x # p) # ps))"

text \<open>\<open>xs.join(sep)\<close> on a list of strings.\<close>

fun join :: "string \<Rightarrow> string list \<Rightarrow> string" where
  "join sep [] = []"
| "join sep [x] = x"
| "join sep (x # y # ys) = x @ sep @ join sep (y # ys)"

text \<open>Decimal digits of a natural number, as \<open>String(n)\<close> prints an index.\<close>

definition digit_char :: "nat \<Rightarrow> char" where
  "digit_char d = ''0123456789'' ! d"

fun string_of_nat :: "nat \<Rightarrow> string" where
  "string_of_nat n =
     (if n < 10 then [digit_char n] else string_of_nat (n div 10) @ [digit_char (n mod 10)])"

subsection \<open>Own properties\<close>

text \<open>The index \<open>i < n\<close> whose decimal spelling is the key \<open>k\<close>, if there is one.\<close>

definition own_index :: "nat \<Rightarrow> string \<Rightarrow> nat option" where
  "own_index n k = List.find (\<lambda>i. string_of_nat i = k) [0..<n]"

text \<open>
  Names of the members every object inherits from \<open>Object.prototype\<close>. A read of one of
  them on an object that has no own property of that name yields the inherited member,
  which is not a value of the model.
\<close>

definition inherited_names :: "string list" where
  "inherited_names =
     [''__proto__'', ''constructor'', ''hasOwnProperty'', ''isPrototypeOf'',
      ''propertyIsEnumerable'', ''toLocaleString'', ''toString'', ''valueOf'',
      ''__defineGetter__'', ''__defineSetter__'', ''__lookupGetter__'', ''__lookupSetter__'']"

text \<open>
  \<open>v[k]\<close>. Reading a property of \<open>undefined\<close> or \<open>null\<close> throws. The names under which
  the program reads a string, an array, a number or a boolean are names of its own, which
  no built-in prototype defines.
\<close>

fun get_prop :: "jsval \<Rightarrow> string \<Rightarrow> error + jsval" where
  "get_prop JUndefined k = Inl TypeError"
| "get_prop JNull k = Inl TypeError"
| "get_prop (JBool b) k = Inr JUndefined"
| "get_prop (JNum n) k = Inr JUndefined"
| "get_prop (JStr s) k =
     (if k = ''length'' then Inr (JNum (int (length s)))
      else (case own_index (length s) k of
              Some i \<Rightarrow> Inr (JStr [s ! i])
            | None \<Rightarrow> Inr JUndefined))"
| "get_prop (JArr xs) k =
     (if k = ''length'' then Inr (JNum (int (length xs)))
      else (case own_index (length xs) k of
              Some i \<Rightarrow> Inr (xs ! i)
            | None \<Rightarrow> Inr JUndefined))"
| "get_prop (JObj ps) k =
     (case map_of ps k of
        Some v \<Rightarrow> Inr v
      | None \<Rightarrow> if k \<in> set inherited_names then Inl Unmodelled else Inr JUndefined)"

text \<open>Whether \<open>k\<close> is an own property of \<open>v\<close>.\<close>

fun has_own :: "jsval \<Rightarrow> string \<Rightarrow> bool" where
  "has_own (JObj ps) k = (map_of ps k \<noteq> None)"
| "has_own (JArr xs) k = (k = ''length'' \<or> own_index (length xs) k \<noteq> None)"
| "has_own (JStr s) k = (k = ''length'' \<or> own_index (length s) k \<noteq> None)"
| "has_own v k = False"

text \<open>
  The call \<open>v.hasOwnProperty(k)\<close>. An own property named \<open>hasOwnProperty\<close> hides the
  inherited method, and as no value of the model is a function the call then throws.
\<close>

fun call_hasOwnProperty :: "jsval \<Rightarrow> string \<Rightarrow> error + bool" where
  "call_hasOwnProperty JUndefined k = Inl TypeError"
| "call_hasOwnProperty JNull k = Inl TypeError"
| "call_hasOwnProperty (JObj ps) k =
     (if map_of ps ''hasOwnProperty'' \<noteq> None then Inl TypeError
      else Inr (has_own (JObj ps) k))"
| "call_hasOwnProperty v k = Inr (has_own v k)"

text \<open>
  \<open>v[k] = x\<close> in strict code (all of the program is class code): creating a property on
  a primitive throws, as does any write to \<open>undefined\<close> or \<open>null\<close>. On an object the
  property is replaced in place or appended. A write under \<open>__proto__\<close> reaches the
  inherited setter and a named write into an array is not followed by the model.
\<close>

fun set_prop :: "jsval \<Rightarrow> string \<Rightarrow> jsval \<Rightarrow> error + jsval" where
  "set_prop (JObj ps) k x =
     (if k = ''__proto__'' then Inl Unmodelled else Inr (JObj (AList.update k x ps)))"
| "set_prop (JArr xs) k x = Inl Unmodelled"
| "set_prop v k x = Inl TypeError"

subsection \<open>Conversion to a string\<close>

text \<open>
  \<open>String(v)\<close>, as a template literal, \<open>Array.prototype.join\<close> and the \<open>value\<close> setter of
  a form control apply it. An array prints its elements separated by commas, with
  \<open>undefined\<close> and \<open>null\<close> elements printed as nothing. An object prints as
  \<open>[object Object]\<close> unless an own property \<open>toString\<close> hides the inherited method: that
  property is no function, and the conversion then throws.
\<close>

definition string_of_int :: "int \<Rightarrow> string" where
  "string_of_int n = (if n < 0 then CHR ''-'' # string_of_nat (nat (- n)) else string_of_nat (nat n))"

fun to_string :: "jsval \<Rightarrow> error + string"
  and join_elements :: "jsval list \<Rightarrow> error + string" where
  "to_string JUndefined = Inr ''undefined''"
| "to_string JNull = Inr ''null''"
| "to_string (JBool b) = Inr (if b then ''true'' else ''false'')"
| "to_string (JNum n) = Inr (string_of_int n)"
| "to_string (JStr s) = Inr s"
| "to_string (JArr xs) = join_elements xs"
| "to_string (JObj ps) =
     (if map_of ps ''toString'' = None then Inr ''[object Object]'' else Inl TypeError)"
| "join_elements [] = Inr []"
| "join_elements (x # xs) =
     and_then (if x = JUndefined \<or> x = JNull then Inr [] else to_string x) (\<lambda>a.
       if xs = [] then Inr a
       else and_then (join_elements xs) (\<lambda>b. Inr (a @ '','' @ b)))"

section \<open>Relationship diagram: parsing of the list fields\<close>

text \<open>
  \<^verbatim>\<open>
  parseInfluenceText(text) {
      if (!text || typeof text !== 'string') return [];
      return text.split(',').map(item => item.trim())
                 .filter(item => item.length > 0).slice(0, 4);
  }
  \<close>
\<close>

definition parseInfluenceText :: "jsval \<Rightarrow> string list" where
  "parseInfluenceText text =
     (if \<not> truthy text \<or> typeof text \<noteq> ''string'' then []
      else (case text of
              JStr s \<Rightarrow> take 4 (filter (\<lambda>item. length item > 0) (map trim (split CHR '','' s)))
            | _ \<Rightarrow> []))"

section \<open>Relationship diagram: layout\<close>

record map_element =
  el_id :: string
  el_text :: jsval
  el_type :: string
  el_x :: real
  el_y :: real
  el_width :: real
  el_height :: real
  el_draggable :: bool

text \<open>
  The angles of \<open>createSurroundingElements\<close>, in radians, over the reals (the rounding of
  the floating-point operations is not modelled):
  \<^verbatim>\<open>(index * 2 * Math.PI) / Math.max(givers.length, 1) - Math.PI / 2\<close> for the energy
  givers and the same with \<^verbatim>\<open>+ Math.PI / 2\<close> for the energy drainers.
\<close>

definition giver_angle :: "nat \<Rightarrow> nat \<Rightarrow> real" where
  "giver_angle n index = (real index * 2 * pi) / real (max n 1) - pi / 2"

definition drainer_angle :: "nat \<Rightarrow> nat \<Rightarrow> real" where
  "drainer_angle n index = (real index * 2 * pi) / real (max n 1) + pi / 2"

definition radius :: real where
  "radius = 120"

definition giver_element :: "real \<Rightarrow> real \<Rightarrow> nat \<Rightarrow> nat \<times> string \<Rightarrow> map_element" where
  "giver_element centerX centerY n = (\<lambda>(index, giver).
     \<lparr> el_id = ''giver-'' @ string_of_nat index,
       el_text = JStr giver,
       el_type = ''positive'',
       el_x = centerX + cos (giver_angle n index) * radius,
       el_y = centerY + sin (giver_angle n index) * radius,
       el_width = 100,
       el_height = 50,
       el_draggable = True \<rparr>)"

definition drainer_element :: "real \<Rightarrow> real \<Rightarrow> nat \<Rightarrow> nat \<times> string \<Rightarrow> map_element" where
  "drainer_element centerX centerY n = (\<lambda>(index, drainer).
     \<lparr> el_id = ''drainer-'' @ string_of_nat index,
       el_text = JStr drainer,
       el_type = ''negative'',
       el_x = centerX + cos (drainer_angle n index) * radius,
       el_y = centerY + sin (drainer_angle n index) * radius,
       el_width = 100,
       el_height = 50,
       el_draggable = True \<rparr>)"

definition pattern_element :: "real \<Rightarrow> real \<Rightarrow> string \<Rightarrow> map_element" where
  "pattern_element centerX centerY pattern =
     \<lparr> el_id = ''pattern'',
       el_text = JStr pattern,
       el_type = ''pattern'',
       el_x = centerX + 140,
       el_y = centerY - 100,
       el_width = 120,
       el_height = 50,
       el_draggable = True \<rparr>"

text \<open>
  \<open>pattern && pattern.trim()\<close>: a falsy pattern adds nothing, a string adds the node when
  it is not blank, and any other truthy value has no \<open>trim\<close> method, so the call throws.
\<close>

fun pattern_present :: "jsval \<Rightarrow> error + string option" where
  "pattern_present (JStr s) = Inr (if s \<noteq> [] \<and> trim s \<noteq> [] then Some s else None)"
| "pattern_present v = (if truthy v then Inl TypeError else Inr None)"

text \<open>
  \<open>createSurroundingElements\<close> pushes onto \<open>this.elements\<close>; the model takes the element
  list and the canvas size and returns the thrown error, if any, with the list as the
  call leaves it.
\<close>

definition createSurroundingElements ::
  "int \<Rightarrow> int \<Rightarrow> map_element list \<Rightarrow> jsval \<Rightarrow> jsval \<Rightarrow> jsval \<Rightarrow> error option \<times> map_element list"
where
  "createSurroundingElements offsetWidth offsetHeight elements energyGivers energyDrainers pattern =
     (let centerX = real_of_int offsetWidth / 2;
          centerY = real_of_int offsetHeight / 2;
          givers = parseInfluenceText energyGivers;
          elements1 = elements @ map (giver_element centerX centerY (length givers)) (enumerate 0 givers);
          drainers = parseInfluenceText energyDrainers;
          elements2 = elements1 @ map (drainer_element centerX centerY (length drainers)) (enumerate 0 drainers)
      in case pattern_present pattern of
           Inl e \<Rightarrow> (Some e, elements2)
         | Inr None \<Rightarrow> (None, elements2)
         | Inr (Some p) \<Rightarrow> (None, elements2 @ [pattern_element centerX centerY p]))"

text \<open>\<open>createFocusElement(focusText)\<close> pushes the centre node.\<close>

definition createFocusElement :: "int \<Rightarrow> int \<Rightarrow> jsval \<Rightarrow> map_element" where
  "createFocusElement offsetWidth offsetHeight focusText =
     \<lparr> el_id = ''focus'',
       el_text = focusText,
       el_type = ''focus'',
       el_x = real_of_int offsetWidth / 2,
       el_y = real_of_int offsetHeight / 2,
       el_width = 150,
       el_height = 60,
       el_draggable = False \<rparr>"

text \<open>
  \<^verbatim>\<open>
  createFallbackElements(text, type, prefix) {
      if (!text) return '';
      const className = type === 'positive' ? 'positive-element' : 'negative-element';
      return this.parseInfluenceText(text).map(item => `<div ...>${prefix}${item}</div>`).join('');
  }
  \<close>
\<close>

definition fallback_div :: "string \<Rightarrow> string \<Rightarrow> string \<Rightarrow> string" where
  "fallback_div className prefix item =
     ''<div class='' @ [CHR 0x22] @ className @ [CHR 0x22] @ '' style='' @ [CHR 0x22] @
     ''padding: 8px 15px; border-radius: 20px; font-size: 0.9em; box-shadow: 0 2px 4px rgba(0,0,0,0.08);'' @
     [CHR 0x22] @ ''>'' @ prefix @ item @ ''</div>''"

definition createFallbackElements :: "jsval \<Rightarrow> string \<Rightarrow> string \<Rightarrow> string" where
  "createFallbackElements text type prefix =
     (if \<not> truthy text then []
      else (let className = (if type = ''positive'' then ''positive-element'' else ''negative-element'')
            in concat (map (fallback_div className prefix) (parseInfluenceText text))))"

section \<open>Relationship diagram: the canvas\<close>

text \<open>
  The element with the id \<open>mappingCanvas\<close>, when the page has one: its size, which the
  program only reads, and its children. A child is the \<open>div\<close> of a node together with the
  \<open>innerHTML\<close> it was given, the line of a connection, the line of instructions, or the
  static view that \<open>showFallbackMap\<close> writes. The attributes of a \<open>div\<close> or a line (id,
  class, style, data set) are template literals over the strings and numbers of the node
  or the connection it stands for; they cannot throw and are not kept apart from it. The
  listeners that are attached do nothing during the call.
\<close>

record connection =
  conn_from :: map_element
  conn_to :: map_element
  conn_type :: string

datatype canvas_node =
    ElementDiv map_element string
  | ConnectionLine connection
  | Instructions string
  | FallbackView string string string string

record canvas_el =
  cv_offsetWidth :: int
  cv_offsetHeight :: int
  cv_children :: "canvas_node list"

text \<open>
  The mapping system: whether \<open>this.canvas\<close> holds the canvas of the page (it is \<open>null\<close>
  otherwise), \<open>this.elements\<close> and \<open>this.connections\<close>.
\<close>

record mapping_system =
  ms_canvas :: bool
  ms_elements :: "map_element list"
  ms_connections :: "connection list"

text \<open>
  \<open>const { mapFocus, mapEnergyGivers, mapEnergyDrainers, mapPattern } = mappingData\<close>
\<close>

definition destructure :: "jsval \<Rightarrow> error + jsval \<times> jsval \<times> jsval \<times> jsval" where
  "destructure mappingData =
     and_then (get_prop mappingData ''mapFocus'') (\<lambda>mapFocus.
     and_then (get_prop mappingData ''mapEnergyGivers'') (\<lambda>mapEnergyGivers.
     and_then (get_prop mappingData ''mapEnergyDrainers'') (\<lambda>mapEnergyDrainers.
     and_then (get_prop mappingData ''mapPattern'') (\<lambda>mapPattern.
       Inr (mapFocus, mapEnergyGivers, mapEnergyDrainers, mapPattern)))))"

text \<open>
  \<^verbatim>\<open>
  showFallbackMap(mappingData) {
      const canvas = Utils.getElementById('mappingCanvas');
      if (!canvas) return;
      const { mapFocus, mapEnergyGivers, mapEnergyDrainers, mapPattern } = mappingData;
      canvas.innerHTML = `... ${mapFocus || 'Your Focus'} ...
          ${this.createFallbackElements(mapEnergyGivers, 'positive', '+ ')}
          ${this.createFallbackElements(mapEnergyDrainers, 'negative', '- ')}
          ${mapPattern ? `<div style="...">Pattern: ${mapPattern}</div>` : ''} ...`;
  }
  \<close>
  Of the new content the four interpolated parts are kept, in their order; the text
  around them is fixed.
\<close>

definition pattern_div :: "string \<Rightarrow> string" where
  "pattern_div mapPattern =
     ''<div style='' @ [CHR 0x22] @
     ''background: var(--color-secondary); color: white; padding: 8px 15px; border-radius: 20px; font-size: 0.9em;'' @
     [CHR 0x22] @ ''>Pattern: '' @ mapPattern @ ''</div>''"

definition showFallbackMap :: "canvas_el option \<Rightarrow> jsval \<Rightarrow> error option \<times> canvas_el option" where
  "showFallbackMap page mappingData =
     (case page of
        None \<Rightarrow> (None, None)
      | Some canvas \<Rightarrow>
          (case and_then (destructure mappingData)
                  (\<lambda>(mapFocus, mapEnergyGivers, mapEnergyDrainers, mapPattern).
                     and_then (to_string (if truthy mapFocus then mapFocus else JStr ''Your Focus'')) (\<lambda>label.
                     and_then (if truthy mapPattern
                               then and_then (to_string mapPattern) (\<lambda>p. Inr (pattern_div p))
                               else Inr []) (\<lambda>patternHtml.
                       Inr (FallbackView label
                              (createFallbackElements mapEnergyGivers ''positive'' ''+ '')
                              (createFallbackElements mapEnergyDrainers ''negative'' ''- '')
                              patternHtml)))) of
             Inl e \<Rightarrow> (Some e, Some canvas)
           | Inr view \<Rightarrow> (None, Some (canvas\<lparr>cv_children := [view]\<rparr>))))"

text \<open>
  \<^verbatim>\<open>
  truncateText(text, maxLength) {
      if (!text) return '';
      if (text.length <= maxLength) return text;
      return text.substring(0, maxLength - 3) + '...';
  }
  \<close>
  Only a string has a \<open>substring\<close> method: a number or \<open>true\<close> has no \<open>length\<close> either
  and throws at the call, an array is returned as it is when it is short enough and throws
  otherwise, and so does an object with a number for \<open>length\<close>. An object without
  \<open>length\<close> throws; with another value for \<open>length\<close>, which the comparison would convert
  to a number, the model does not follow the program.
\<close>

fun truncateText :: "jsval \<Rightarrow> nat \<Rightarrow> error + jsval" where
  "truncateText (JStr s) maxLength =
     (if s = [] then Inr (JStr [])
      else if length s \<le> maxLength then Inr (JStr s)
      else Inr (JStr (take (maxLength - 3) s @ ''...'')))"
| "truncateText (JArr xs) maxLength =
     (if length xs \<le> maxLength then Inr (JArr xs) else Inl TypeError)"
| "truncateText (JObj ps) maxLength =
     (case map_of ps ''length'' of
        None \<Rightarrow> Inl TypeError
      | Some (JNum n) \<Rightarrow> if n \<le> int maxLength then Inr (JObj ps) else Inl TypeError
      | Some v \<Rightarrow> Inl Unmodelled)"
| "truncateText v maxLength = (if truthy v then Inl TypeError else Inr (JStr []))"

text \<open>
  \<open>createElement(element)\<close> builds the \<open>div\<close> of a node through \<open>Utils.createElement\<close>,
  which ends in \<^verbatim>\<open>if (content) { element.innerHTML = content; }\<close> with
  \<open>this.truncateText(element.text, 50)\<close> for the content; the assignment converts the
  content to a string.
\<close>

definition createElement :: "map_element \<Rightarrow> error + canvas_node" where
  "createElement element =
     and_then (truncateText (el_text element) 50) (\<lambda>content.
     and_then (if truthy content then to_string content else Inr []) (\<lambda>html.
       Inr (ElementDiv element html)))"

text \<open>
  \<open>renderElements()\<close> appends the \<open>div\<close> of each node to the canvas, in order; the
  children appended before a throw stay.
\<close>

fun renderElements :: "canvas_node list \<Rightarrow> map_element list \<Rightarrow> error option \<times> canvas_node list" where
  "renderElements children [] = (None, children)"
| "renderElements children (element # rest) =
     (case createElement element of
        Inl e \<Rightarrow> (Some e, children)
      | Inr elementDiv \<Rightarrow> renderElements (children @ [elementDiv]) rest)"

text \<open>
  \<open>createConnections()\<close>: every node that is not of type \<open>focus\<close> is connected to the
  first node of type \<open>focus\<close>, if there is one; each connection appends a line to the
  canvas and an entry to \<open>this.connections\<close>.
\<close>

definition createConnections :: "map_element list \<Rightarrow> connection list" where
  "createConnections elements =
     (case find (\<lambda>el. el_type el = ''focus'') elements of
        None \<Rightarrow> []
      | Some focusElement \<Rightarrow>
          map (\<lambda>element. \<lparr>conn_from = element, conn_to = focusElement, conn_type = el_type element\<rparr>)
            (filter (\<lambda>element. el_type element \<noteq> ''focus'') elements))"

definition addInstructions :: canvas_node where
  "addInstructions =
     Instructions ''Drag the colored elements to explore connections. The center represents your focus area.''"

text \<open>
  \<^verbatim>\<open>
  generateMap(mappingData) {
      if (!this.initializeCanvas('mappingCanvas')) {
          this.showFallbackMap(mappingData);
          return;
      }
      const { mapFocus, mapEnergyGivers, mapEnergyDrainers, mapPattern } = mappingData;
      this.elements = [];
      this.connections = [];
      this.createFocusElement(mapFocus || 'Your Focus');
      this.createSurroundingElements(mapEnergyGivers, mapEnergyDrainers, mapPattern);
      this.renderElements();
      this.createConnections();
      this.addInstructions();
  }
  \<close>
  \<open>initializeCanvas\<close> stores the canvas of the page in \<open>this.canvas\<close> and, when there is
  one, empties it. The model takes the canvas of the page, if any, and the mapping system,
  and returns the thrown error, if any, with both as the call leaves them.
\<close>

definition generateMap ::
  "canvas_el option \<Rightarrow> mapping_system \<Rightarrow> jsval \<Rightarrow> error option \<times> canvas_el option \<times> mapping_system"
where
  "generateMap page ms mappingData =
     (case page of
        None \<Rightarrow>
          (let r = showFallbackMap page mappingData
           in (fst r, snd r, ms\<lparr>ms_canvas := False\<rparr>))
      | Some canvas \<Rightarrow>
          (let canvas1 = canvas\<lparr>cv_children := []\<rparr>;
               ms1 = ms\<lparr>ms_canvas := True\<rparr>
           in case destructure mappingData of
                Inl e \<Rightarrow> (Some e, Some canvas1, ms1)
              | Inr (mapFocus, mapEnergyGivers, mapEnergyDrainers, mapPattern) \<Rightarrow>
                  (let r = createSurroundingElements (cv_offsetWidth canvas) (cv_offsetHeight canvas)
                             [createFocusElement (cv_offsetWidth canvas) (cv_offsetHeight canvas)
                                (if truthy mapFocus then mapFocus else JStr ''Your Focus'')]
                             mapEnergyGivers mapEnergyDrainers mapPattern;
                       ms2 = ms1\<lparr>ms_elements := snd r, ms_connections := []\<rparr>
                   in case fst r of
                        Some e \<Rightarrow> (Some e, Some canvas1, ms2)
                      | None \<Rightarrow>
                          (case renderElements [] (snd r) of
                             (Some e, children) \<Rightarrow> (Some e, Some (canvas1\<lparr>cv_children := children\<rparr>), ms2)
                           | (None, children) \<Rightarrow>
                               (None,
                                Some (canvas1\<lparr>cv_children :=
                                        children @ map ConnectionLine (createConnections (snd r))
                                        @ [addInstructions]\<rparr>),
                                ms2\<lparr>ms_connections := createConnections (snd r)\<rparr>)))))"



section \<open>Document model\<close>

text \<open>
  \<open>getDefaultDataStructure\<close>. The two time stamps are read from the clock when the
  structure is built; \<open>now\<close> stands for that reading.
\<close>

definition getDefaultDataStructure :: "string \<Rightarrow> jsval" where
  "getDefaultDataStructure now = JObj
     [(''metadata'', JObj
         [(''created'', JStr now), (''lastModified'', JStr now),
          (''version'', JStr ''1.0''), (''currentSection'', JStr ''welcome'')]),
      (''welcome'', JObj []),
      (''focus'', JObj
         [(''lifeChallenge'', JStr []), (''lifeAreas'', JArr []),
          (''otherArea'', JStr []), (''wantMore'', JStr [])]),
      (''influences'', JObj
         [(''energyGivers'', JStr []), (''energyDrainers'', JStr []),
          (''stuckRoutines'', JStr []), (''expectations'', JStr []),
          (''pressures'', JStr []), (''repeatedBehaviors'', JStr [])]),
      (''connections'', JObj
         [(''focusAreaRepeat'', JStr []), (''energyGiver1'', JStr []),
          (''energyConnection1'', JStr []), (''energyGiver2'', JStr []),
          (''energyConnection2'', JStr []), (''energyDrainer1'', JStr []),
          (''drainerConnection1'', JStr []), (''energyDrainer2'', JStr []),
          (''drainerConnection2'', JStr []), (''strongestPattern'', JStr []),
          (''patternConnection'', JStr []), (''ahaReflection'', JStr [])]),
      (''mapping'', JObj
         [(''mapFocus'', JStr []), (''mapEnergyGivers'', JStr []),
          (''mapEnergyDrainers'', JStr []), (''mapPattern'', JStr []),
          (''strongestNegative'', JStr []), (''strongestPositive'', JStr []),
          (''chainReaction'', JStr []), (''leveragePoint'', JStr [])]),
      (''patterns'', JObj
         [(''mainLoop'', JStr []), (''loopType'', JStr []),
          (''selectedPattern'', JStr []), (''connectionToChange'', JStr []),
          (''howToChange'', JStr []), (''systemImpact'', JStr []),
          (''keyLearning'', JStr []), (''readyToChange'', JStr []),
          (''whyThisChange'', JStr [])]),
      (''goals'', JObj
         [(''leveragePointGoal'', JStr []), (''goalStatement'', JStr []),
          (''goalImpact'', JStr []), (''successMetrics'', JStr []),
          (''potentialObstacles'', JStr [])]),
      (''roadmap'', JObj
         [(''roadmapGoal'', JStr []), (''milestone1'', JStr []),
          (''milestone2'', JStr []), (''milestone3'', JStr []),
          (''milestone1Actions'', JStr []), (''milestone2Actions'', JStr []),
          (''milestone3Actions'', JStr []), (''flexibilityPlan'', JStr []),
          (''supportSystem'', JStr [])]),
      (''commitment'', JObj
         [(''commitmentFoundation'', JStr []), (''patternToInterrupt'', JStr []),
          (''nowColumnImportant'', JStr []), (''whatToGain'', JStr []),
          (''commitmentText'', JStr []), (''whenHard'', JStr []),
          (''supportWho'', JStr []), (''supportEnvironment'', JStr []),
          (''whenStumble'', JStr []), (''reminderRitual'', JStr []),
          (''yourName'', JStr []), (''signatureDate'', JStr []),
          (''finalReflection'', JStr []), (''oneWord'', JStr [])])]"

text \<open>
  \<open>Utils.deepClone\<close>: primitives are returned as they are, arrays and objects are rebuilt
  element by element (a document holds no \<open>Date\<close> object).
\<close>

primrec deepClone :: "jsval \<Rightarrow> jsval" where
  "deepClone JUndefined = JUndefined"
| "deepClone JNull = JNull"
| "deepClone (JBool b) = JBool b"
| "deepClone (JNum n) = JNum n"
| "deepClone (JStr s) = JStr s"
| "deepClone (JArr xs) = JArr (map deepClone xs)"
| "deepClone (JObj ps) = JObj (map (map_prod id deepClone) ps)"

text \<open>
  The own enumerable properties that \<open>Object.keys\<close> and an object spread go through.
\<close>

fun own_props :: "jsval \<Rightarrow> (string \<times> jsval) list" where
  "own_props (JObj ps) = ps"
| "own_props (JArr xs) = zip (map string_of_nat [0..<length xs]) xs"
| "own_props (JStr s) = zip (map string_of_nat [0..<length s]) (map (\<lambda>c. JStr [c]) s)"
| "own_props v = []"

text \<open>
  Storing the updated object \<open>child\<close> back under the own property \<open>k\<close> it was read from.
  In the program the object is changed in place; the model rebuilds its owner.
\<close>

fun write_back :: "jsval \<Rightarrow> string \<Rightarrow> jsval \<Rightarrow> jsval" where
  "write_back (JObj ps) k child = JObj (AList.update k child ps)"
| "write_back (JArr xs) k child =
     (case own_index (length xs) k of Some i \<Rightarrow> JArr (xs[i := child]) | None \<Rightarrow> JArr xs)"
| "write_back v k child = v"

text \<open>
  The inner function of \<open>mergeWithDefaults\<close>, over the own properties of \<open>source\<close>:
  \<^verbatim>\<open>
  function mergeObjects(target, source) {
      Object.keys(source).forEach(key => {
          if (source[key] && typeof source[key] === 'object' && !Array.isArray(source[key])) {
              if (!target[key]) target[key] = {};
              mergeObjects(target[key], source[key]);
          } else {
              target[key] = source[key];
          }
      });
  }
  \<close>
  Merging a non-empty object into a string, a number, a boolean or an array is not
  followed by the model.
\<close>

fun mergeObjects :: "jsval \<Rightarrow> (string \<times> jsval) list \<Rightarrow> error + jsval" where
  "mergeObjects target [] = Inr target"
| "mergeObjects (JObj tps) ((key, JObj sps) # rest) =
     and_then (get_prop (JObj tps) key) (\<lambda>tv.
     and_then (if \<not> truthy tv then set_prop (JObj tps) key (JObj []) else Inr (JObj tps)) (\<lambda>target1.
     and_then (mergeObjects (if \<not> truthy tv then JObj [] else tv) sps) (\<lambda>child.
     mergeObjects (write_back target1 key child) rest)))"
| "mergeObjects (JObj tps) ((key, v) # rest) =
     and_then (set_prop (JObj tps) key v) (\<lambda>target1. mergeObjects target1 rest)"
| "mergeObjects target (p # rest) = Inl Unmodelled"

text \<open>\<open>o[a][b] = v\<close>: nothing is written when one of the two steps throws.\<close>

definition assign2 :: "jsval \<Rightarrow> string \<Rightarrow> string \<Rightarrow> jsval \<Rightarrow> error + jsval" where
  "assign2 d a b v =
     and_then (get_prop d a) (\<lambda>inner.
     and_then (set_prop inner b v) (\<lambda>inner'. Inr (write_back d a inner')))"

text \<open>
  \<^verbatim>\<open>
  mergeWithDefaults(stored) {
      const defaults = this.getDefaultDataStructure();
      const merged = Utils.deepClone(defaults);
      mergeObjects(merged, stored);
      merged.metadata.lastModified = new Date().toISOString();
      return merged;
  }
  \<close>
  \<open>Object.keys\<close> throws on \<open>undefined\<close> and \<open>null\<close>.
\<close>

definition mergeWithDefaults :: "string \<Rightarrow> jsval \<Rightarrow> error + jsval" where
  "mergeWithDefaults now stored =
     (let defaults = getDefaultDataStructure now;
          merged = deepClone defaults
      in if stored = JUndefined \<or> stored = JNull then Inl TypeError
         else and_then (mergeObjects merged (own_props stored)) (\<lambda>merged1.
              assign2 merged1 ''metadata'' ''lastModified'' (JStr now)))"

text \<open>
  \<^verbatim>\<open>
  validateDataStructure(data) {
      if (!data || typeof data !== 'object') return false;
      const requiredSections = ['metadata', 'focus', 'influences', 'connections'];
      return requiredSections.every(section => data.hasOwnProperty(section));
  }
  \<close>
\<close>

fun every_hasOwnProperty :: "jsval \<Rightarrow> string list \<Rightarrow> error + bool" where
  "every_hasOwnProperty data [] = Inr True"
| "every_hasOwnProperty data (section # sections) =
     and_then (call_hasOwnProperty data section) (\<lambda>b.
       if b then every_hasOwnProperty data sections else Inr False)"

definition requiredSections :: "string list" where
  "requiredSections = [''metadata'', ''focus'', ''influences'', ''connections'']"

definition validateDataStructure :: "jsval \<Rightarrow> error + bool" where
  "validateDataStructure data =
     (if \<not> truthy data \<or> typeof data \<noteq> ''object'' then Inr False
      else every_hasOwnProperty data requiredSections)"

text \<open>
  \<open>loadData\<close>, given what \<open>Utils.storage.get\<close> returned (\<open>null\<close> when the slot is empty
  or unreadable):
  \<^verbatim>\<open>
  if (stored && this.validateDataStructure(stored)) return this.mergeWithDefaults(stored);
  return this.getDefaultDataStructure();
  \<close>
\<close>

definition loadData :: "string \<Rightarrow> jsval \<Rightarrow> error + jsval" where
  "loadData now stored =
     (if \<not> truthy stored then Inr (getDefaultDataStructure now)
      else and_then (validateDataStructure stored) (\<lambda>valid.
             if valid then mergeWithDefaults now stored
             else Inr (getDefaultDataStructure now)))"

subsection \<open>Statements that change the document\<close>

text \<open>
  A method body is a sequence of statements on \<open>this.data\<close>. The result of running it is
  the error thrown, if any, together with the document as the statements executed so far
  have left it: a statement that throws writes nothing itself, but it does not undo the
  statements before it.
\<close>

definition run :: "jsval \<Rightarrow> error + jsval \<Rightarrow> error option \<times> jsval" where
  "run d m = (case m of Inl e \<Rightarrow> (Some e, d) | Inr d' \<Rightarrow> (None, d'))"

definition next_stmt ::
  "error option \<times> jsval \<Rightarrow> (jsval \<Rightarrow> error + jsval) \<Rightarrow> error option \<times> jsval" where
  "next_stmt r f = (case r of (None, d) \<Rightarrow> run d (f d) | (Some e, d) \<Rightarrow> (Some e, d))"

text \<open>
  \<open>try { ...; return true; } catch (error) { ...; return false; }\<close> around such a body.
\<close>

definition returns_bool :: "error option \<times> jsval \<Rightarrow> error + bool \<times> jsval" where
  "returns_bool r =
     (case r of
        (None, d) \<Rightarrow> Inr (True, d)
      | (Some e, d) \<Rightarrow> if e = Unmodelled then Inl Unmodelled else Inr (False, d))"

text \<open>
  \<^verbatim>\<open>
  getField(section, fieldId, defaultValue = '') {
      try {
          if (this.data[section] && this.data[section].hasOwnProperty(fieldId)) {
              return this.data[section][fieldId];
          }
          return defaultValue;
      } catch (error) { return defaultValue; }
  }
  \<close>
\<close>

definition getField :: "jsval \<Rightarrow> string \<Rightarrow> string \<Rightarrow> jsval \<Rightarrow> error + jsval" where
  "getField data section fieldId defaultValue =
     try_catch
       (and_then (get_prop data section) (\<lambda>sv.
          if \<not> truthy sv then Inr defaultValue
          else and_then (call_hasOwnProperty sv fieldId) (\<lambda>b.
                 if b then get_prop sv fieldId else Inr defaultValue)))
       (\<lambda>error. Inr defaultValue)"

text \<open>
  \<^verbatim>\<open>
  saveField(section, fieldId, value) {
      try {
          if (!this.data[section]) { this.data[section] = {}; }
          this.data[section][fieldId] = value;
          this.data.metadata.lastModified = new Date().toISOString();
          this.debouncedSave();
          return true;
      } catch (error) { return false; }
  }
  \<close>
  \<open>debouncedSave\<close> only schedules a later write of the document to storage.
\<close>

definition ensure_section :: "jsval \<Rightarrow> string \<Rightarrow> error + jsval" where
  "ensure_section d section =
     and_then (get_prop d section) (\<lambda>sv.
       if \<not> truthy sv then set_prop d section (JObj []) else Inr d)"

definition saveField ::
  "string \<Rightarrow> jsval \<Rightarrow> string \<Rightarrow> string \<Rightarrow> jsval \<Rightarrow> error + bool \<times> jsval" where
  "saveField now data section fieldId v =
     returns_bool
       (next_stmt
          (next_stmt (run data (ensure_section data section))
             (\<lambda>d. assign2 d section fieldId v))
          (\<lambda>d. assign2 d ''metadata'' ''lastModified'' (JStr now)))"

text \<open>
  \<open>saveSection\<close>: \<open>this.data[section] = { ...this.data[section], ...sectionData }\<close>, then
  the time stamp as in \<open>saveField\<close>.
\<close>

definition spread2 :: "jsval \<Rightarrow> jsval \<Rightarrow> jsval" where
  "spread2 a b = JObj (fold (\<lambda>(k, v). AList.update k v) (own_props b) (own_props a))"

definition saveSection :: "string \<Rightarrow> jsval \<Rightarrow> string \<Rightarrow> jsval \<Rightarrow> error + bool \<times> jsval" where
  "saveSection now data section sectionData =
     returns_bool
       (next_stmt
          (run data (and_then (get_prop data section) (\<lambda>sv.
                       set_prop data section (spread2 sv sectionData))))
          (\<lambda>d. assign2 d ''metadata'' ''lastModified'' (JStr now)))"

text \<open>\<open>getSection(section)\<close>: \<open>this.data[section] || {}\<close>.\<close>

definition getSection :: "jsval \<Rightarrow> string \<Rightarrow> error + jsval" where
  "getSection data section =
     and_then (get_prop data section) (\<lambda>sv. Inr (if truthy sv then sv else JObj []))"

text \<open>
  \<^verbatim>\<open>
  saveCurrentSection(currentSection) {
      this.data.metadata.currentSection = currentSection;
      this.debouncedSave();
  }
  \<close>
  There is no \<open>try\<close> here: an error of the assignment reaches the caller.
\<close>

definition saveCurrentSection :: "jsval \<Rightarrow> string \<Rightarrow> error option \<times> jsval" where
  "saveCurrentSection data currentSection =
     run data (assign2 data ''metadata'' ''currentSection'' (JStr currentSection))"

text \<open>
  \<open>importData(data, merge)\<close>. \<open>parse\<close> stands for \<open>JSON.parse\<close>, which throws a
  \<open>SyntaxError\<close> on a malformed text. \<open>persistData\<close> and the import events contain their
  own errors and do not touch the document.
  \<^verbatim>\<open>
  try {
      let importedData;
      if (typeof data === 'string') { importedData = JSON.parse(data); }
      else { importedData = data; }
      if (!this.validateDataStructure(importedData)) { throw new Error('Invalid data structure'); }
      if (merge) { this.data = this.mergeWithDefaults(importedData); }
      else {
          this.data = importedData;
          this.data.metadata.lastModified = new Date().toISOString();
      }
      this.persistData();
      this.dispatchImportEvent('success');
      return true;
  } catch (error) { ...; return false; }
  \<close>
\<close>

definition importData ::
  "(string \<Rightarrow> error + jsval) \<Rightarrow> string \<Rightarrow> jsval \<Rightarrow> jsval \<Rightarrow> bool \<Rightarrow> error + bool \<times> jsval" where
  "importData parse now this_data data merge =
     returns_bool
       (case (case data of JStr text \<Rightarrow> parse text | _ \<Rightarrow> Inr data) of
          Inl e \<Rightarrow> (Some e, this_data)
        | Inr importedData \<Rightarrow>
            (case validateDataStructure importedData of
               Inl e \<Rightarrow> (Some e, this_data)
             | Inr valid \<Rightarrow>
                 if \<not> valid then (Some InvalidDataStructure, this_data)
                 else if merge then run this_data (mergeWithDefaults now importedData)
                 else run importedData
                        (assign2 importedData ''metadata'' ''lastModified'' (JStr now))))"

text \<open>
  \<^verbatim>\<open>
  getCompletionPercentage() {
      const requiredFields = ['focus.wantMore', ..., 'commitment.commitmentText'];
      let completedFields = 0;
      requiredFields.forEach(fieldPath => {
          const [section, field] = fieldPath.split('.');
          const value = this.getField(section, field);
          if (value && typeof value === 'string' && value.trim().length > 0) { completedFields++; }
      });
      return Math.round((completedFields / requiredFields.length) * 100);
  }
  \<close>
  The quotient is taken over the rationals; \<open>Math.round\<close> rounds halves upwards.
\<close>

definition requiredFields :: "string list" where
  "requiredFields =
     [''focus.wantMore'', ''influences.energyGivers'', ''influences.energyDrainers'',
      ''connections.ahaReflection'', ''patterns.keyLearning'', ''goals.goalStatement'',
      ''commitment.commitmentText'']"

definition math_round :: "rat \<Rightarrow> int" where
  "math_round x = \<lfloor>x + 1 / 2\<rfloor>"

definition is_filled :: "jsval \<Rightarrow> bool" where
  "is_filled v \<longleftrightarrow>
     truthy v \<and> typeof v = ''string'' \<and> (case v of JStr s \<Rightarrow> length (trim s) > 0 | _ \<Rightarrow> False)"

text \<open>
  \<open>const [section, field] = fieldPath.split('.')\<close> followed by
  \<open>this.getField(section, field)\<close>: a missing second part is \<open>undefined\<close>, which as a
  property key reads \<open>undefined\<close>, and the default value of \<open>getField\<close> is \<open>''\<close>.
\<close>

definition anchor_value :: "jsval \<Rightarrow> string \<Rightarrow> error + jsval" where
  "anchor_value data fieldPath =
     (case split CHR ''.'' fieldPath of
        section # field # rest \<Rightarrow> getField data section field (JStr [])
      | [section] \<Rightarrow> getField data section ''undefined'' (JStr [])
      | [] \<Rightarrow> Inl Unmodelled)"

definition field_completed :: "jsval \<Rightarrow> string \<Rightarrow> error + bool" where
  "field_completed data fieldPath =
     and_then (anchor_value data fieldPath) (\<lambda>v. Inr (is_filled v))"

fun count_completed :: "jsval \<Rightarrow> string list \<Rightarrow> error + nat" where
  "count_completed data [] = Inr 0"
| "count_completed data (fieldPath # fieldPaths) =
     and_then (field_completed data fieldPath) (\<lambda>b.
     and_then (count_completed data fieldPaths) (\<lambda>n. Inr (if b then Suc n else n)))"

definition getCompletionPercentage :: "jsval \<Rightarrow> error + int" where
  "getCompletionPercentage data =
     and_then (count_completed data requiredFields) (\<lambda>completedFields.
       Inr (math_round (of_nat completedFields / of_nat (length requiredFields) * 100)))"

subsection \<open>Joining the filled answers\<close>

text \<open>\<open>[a, b].filter(Boolean).join(', ')\<close>\<close>

fun join_strings :: "string \<Rightarrow> jsval list \<Rightarrow> error + string" where
  "join_strings sep [] = Inr []"
| "join_strings sep (x # xs) =
     and_then (if x = JUndefined \<or> x = JNull then Inr [] else to_string x) (\<lambda>a.
       if xs = [] then Inr a
       else and_then (join_strings sep xs) (\<lambda>b. Inr (a @ sep @ b)))"

definition filter_join :: "jsval list \<Rightarrow> error + jsval" where
  "filter_join vs = and_then (join_strings '', '' (filter truthy vs)) (\<lambda>s. Inr (JStr s))"

subsection \<open>Auto-population\<close>

text \<open>
  \<open>getAutoPopulationData(targetSection)\<close> builds the whole table of defaults from the
  stored answers and returns \<open>mappings[targetSection] || {}\<close>.
\<close>

definition getAutoPopulationData :: "jsval \<Rightarrow> string \<Rightarrow> error + jsval" where
  "getAutoPopulationData data targetSection =
     and_then (getField data ''focus'' ''wantMore'' (JStr [])) (\<lambda>focusAreaRepeat.
     and_then (getField data ''focus'' ''wantMore'' (JStr [])) (\<lambda>mapFocus.
     and_then (getField data ''connections'' ''energyGiver1'' (JStr [])) (\<lambda>giver1.
     and_then (getField data ''connections'' ''energyGiver2'' (JStr [])) (\<lambda>giver2.
     and_then (filter_join [giver1, giver2]) (\<lambda>mapEnergyGivers.
     and_then (getField data ''connections'' ''energyDrainer1'' (JStr [])) (\<lambda>drainer1.
     and_then (getField data ''connections'' ''energyDrainer2'' (JStr [])) (\<lambda>drainer2.
     and_then (filter_join [drainer1, drainer2]) (\<lambda>mapEnergyDrainers.
     and_then (getField data ''connections'' ''strongestPattern'' (JStr [])) (\<lambda>mapPattern.
     and_then (getField data ''mapping'' ''leveragePoint'' (JStr [])) (\<lambda>leveragePointGoal.
     and_then (getField data ''goals'' ''goalStatement'' (JStr [])) (\<lambda>roadmapGoal.
     and_then
       (get_prop
          (JObj
             [(''connections'', JObj [(''focusAreaRepeat'', focusAreaRepeat)]),
              (''mapping'', JObj
                 [(''mapFocus'', mapFocus), (''mapEnergyGivers'', mapEnergyGivers),
                  (''mapEnergyDrainers'', mapEnergyDrainers), (''mapPattern'', mapPattern)]),
              (''goals'', JObj [(''leveragePointGoal'', leveragePointGoal)]),
              (''roadmap'', JObj [(''roadmapGoal'', roadmapGoal)])])
          targetSection)
       (\<lambda>m. Inr (if truthy m then m else JObj [])))))))))))))"

section \<open>Step controller: the rendered form\<close>

text \<open>
  The page is modelled by the elements that carry an id. A text input, a hidden input,
  a check box and a text area keep a string in \<open>value\<close>; a select keeps the chosen one of
  its option values; on any other element (the \<open>span\<close>s of the mapping step) \<open>value\<close> is
  an ordinary property, \<open>undefined\<close> until something is stored there.
\<close>

datatype elem_kind =
    InputText
  | InputHidden
  | InputDate
  | InputCheckbox
  | TextArea
  | SelectOne "string list"
  | OtherElement

record dom_elem =
  kind :: elem_kind
  elem_value :: jsval
  checked :: bool

type_synonym dom = "(string \<times> dom_elem) list"

text \<open>\<open>Utils.getElementById(id)\<close>: the element or \<open>null\<close>.\<close>

definition getElementById :: "dom \<Rightarrow> string \<Rightarrow> dom_elem option" where
  "getElementById page ident = map_of page ident"

text \<open>
  \<open>element.value = x\<close>. A form control converts \<open>x\<close> to a string, \<open>null\<close> to the empty
  one. A text input drops line breaks from it, a select keeps it only when it is the value
  of one of its options. The treatment of a carriage return by a text area and the
  validation of a date input are not followed by the model.
\<close>

definition control_string :: "jsval \<Rightarrow> error + string" where
  "control_string x = (if x = JNull then Inr [] else to_string x)"

definition set_value :: "dom_elem \<Rightarrow> jsval \<Rightarrow> error + dom_elem" where
  "set_value element x =
     (case kind element of
        OtherElement \<Rightarrow> Inr (element\<lparr>elem_value := x\<rparr>)
      | InputDate \<Rightarrow> Inl Unmodelled
      | InputText \<Rightarrow>
          and_then (control_string x) (\<lambda>s.
            Inr (element\<lparr>elem_value := JStr (filter (\<lambda>c. c \<noteq> CHR 0x0A \<and> c \<noteq> CHR 0x0D) s)\<rparr>))
      | TextArea \<Rightarrow>
          and_then (control_string x) (\<lambda>s.
            if CHR 0x0D \<in> set s then Inl Unmodelled else Inr (element\<lparr>elem_value := JStr s\<rparr>))
      | SelectOne options \<Rightarrow>
          and_then (control_string x) (\<lambda>s.
            Inr (element\<lparr>elem_value := JStr (if s \<in> set options then s else [])\<rparr>))
      | _ \<Rightarrow> and_then (control_string x) (\<lambda>s. Inr (element\<lparr>elem_value := JStr s\<rparr>)))"

text \<open>
  \<^verbatim>\<open>
  setupAutoPopulation(section) {
      const autoData = this.getAutoPopulationData(section);
      Object.keys(autoData).forEach(fieldId => {
          const element = Utils.getElementById(fieldId);
          if (element && !element.value) { element.value = autoData[fieldId]; }
      });
  }
  \<close>
\<close>

fun autoPopulate :: "dom \<Rightarrow> (string \<times> jsval) list \<Rightarrow> error + dom" where
  "autoPopulate page [] = Inr page"
| "autoPopulate page ((fieldId, auto) # rest) =
     (case getElementById page fieldId of
        None \<Rightarrow> autoPopulate page rest
      | Some element \<Rightarrow>
          if \<not> truthy (elem_value element)
          then and_then (set_value element auto) (\<lambda>element'.
                 autoPopulate (AList.update fieldId element' page) rest)
          else autoPopulate page rest)"

definition setupAutoPopulation :: "jsval \<Rightarrow> dom \<Rightarrow> string \<Rightarrow> error + dom" where
  "setupAutoPopulation data page section =
     and_then (getAutoPopulationData data section) (\<lambda>autoData.
       autoPopulate page (own_props autoData))"

text \<open>
  \<^verbatim>\<open>
  populateSectionData(sectionId) {
      const sectionData = this.journalData.getSection(sectionId);
      this.journalData.setupAutoPopulation(sectionId);
      Object.keys(sectionData).forEach(fieldId => {
          const element = Utils.getElementById(fieldId);
          const value = sectionData[fieldId];
          if (element && value !== undefined) {
              if (element.type === 'checkbox') { element.checked = value; }
              else if (element.tagName === 'SELECT') { element.value = value; }
              else if (fieldId === 'lifeAreas' && Array.isArray(value)) {
                  value.forEach(area => {
                      const checkbox = Utils.getElementById(`area-${area}`);
                      if (checkbox) checkbox.checked = true;
                  });
              } else { element.value = value; }
          }
      });
  }
  \<close>
\<close>

fun check_areas :: "dom \<Rightarrow> jsval list \<Rightarrow> error + dom" where
  "check_areas page [] = Inr page"
| "check_areas page (area # areas) =
     and_then (to_string area) (\<lambda>name.
       (case getElementById page (''area-'' @ name) of
          None \<Rightarrow> check_areas page areas
        | Some checkbox \<Rightarrow>
            check_areas (AList.update (''area-'' @ name) (checkbox\<lparr>checked := True\<rparr>) page) areas))"

definition restore_field :: "dom \<Rightarrow> string \<Rightarrow> jsval \<Rightarrow> error + dom" where
  "restore_field page fieldId v =
     (case getElementById page fieldId of
        None \<Rightarrow> Inr page
      | Some element \<Rightarrow>
          if v = JUndefined then Inr page
          else if kind element = InputCheckbox
          then Inr (AList.update fieldId (element\<lparr>checked := truthy v\<rparr>) page)
          else (case kind element of
                  SelectOne options \<Rightarrow>
                    and_then (set_value element v) (\<lambda>element'.
                      Inr (AList.update fieldId element' page))
                | _ \<Rightarrow>
                    (case (fieldId = ''lifeAreas'', v) of
                       (True, JArr areas) \<Rightarrow> check_areas page areas
                     | _ \<Rightarrow> and_then (set_value element v) (\<lambda>element'.
                              Inr (AList.update fieldId element' page)))))"

fun restore_fields :: "dom \<Rightarrow> (string \<times> jsval) list \<Rightarrow> error + dom" where
  "restore_fields page [] = Inr page"
| "restore_fields page ((fieldId, v) # rest) =
     and_then (restore_field page fieldId v) (\<lambda>page'. restore_fields page' rest)"

definition populateSectionData :: "jsval \<Rightarrow> dom \<Rightarrow> string \<Rightarrow> error + dom" where
  "populateSectionData data page sectionId =
     and_then (getSection data sectionId) (\<lambda>sectionData.
     and_then (setupAutoPopulation data page sectionId) (\<lambda>page1.
       restore_fields page1 (own_props sectionData)))"

text \<open>
  The elements with an id that \<open>getMappingContent\<close> renders, as they are when the mapping
  step is built: one read-only text input, three \<open>span\<close>s and four text areas.
\<close>

definition mapping_page :: dom where
  "mapping_page =
     [(''mapFocus'', \<lparr>kind = InputText, elem_value = JStr [], checked = False\<rparr>),
      (''mapEnergyGivers'', \<lparr>kind = OtherElement, elem_value = JUndefined, checked = False\<rparr>),
      (''mapEnergyDrainers'', \<lparr>kind = OtherElement, elem_value = JUndefined, checked = False\<rparr>),
      (''mapPattern'', \<lparr>kind = OtherElement, elem_value = JUndefined, checked = False\<rparr>),
      (''strongestNegative'', \<lparr>kind = TextArea, elem_value = JStr [], checked = False\<rparr>),
      (''strongestPositive'', \<lparr>kind = TextArea, elem_value = JStr [], checked = False\<rparr>),
      (''chainReaction'', \<lparr>kind = TextArea, elem_value = JStr [], checked = False\<rparr>),
      (''leveragePoint'', \<lparr>kind = TextArea, elem_value = JStr [], checked = False\<rparr>)]"

section \<open>Progress ledger\<close>

record progress_tracker =
  sections :: "string list"
  currentSectionIndex :: nat
  completedSections :: "string list"

text \<open>The tracker as its constructor leaves it when nothing is stored.\<close>

definition new_tracker :: progress_tracker where
  "new_tracker =
     \<lparr> sections = [''welcome'', ''focus'', ''influences'', ''connections'', ''mapping'',
                    ''patterns'', ''goals'', ''roadmap'', ''commitment''],
       currentSectionIndex = 0,
       completedSections = [] \<rparr>"

text \<open>\<open>completedSections\<close> is a \<open>Set\<close>: \<open>add\<close> appends a new member, \<open>delete\<close> removes it.\<close>

definition set_add :: "string \<Rightarrow> string list \<Rightarrow> string list" where
  "set_add k ks = (if k \<in> set ks then ks else ks @ [k])"

definition set_delete :: "string \<Rightarrow> string list \<Rightarrow> string list" where
  "set_delete k ks = filter (\<lambda>x. x \<noteq> k) ks"

text \<open>
  The two tables of required fields. A look-up \<open>table[section]\<close> under the name of an
  inherited member is not followed by the model.
\<close>

definition lookup_table :: "(string \<times> string list) list \<Rightarrow> string \<Rightarrow> error + string list option" where
  "lookup_table table section =
     (case map_of table section of
        Some flds \<Rightarrow> Inr (Some flds)
      | None \<Rightarrow> if section \<in> set inherited_names then Inl Unmodelled else Inr None)"

text \<open>\<open>isRequiredField\<close>: \<open>requiredFields[section]?.includes(fieldId) || false\<close>\<close>

definition isRequiredField :: "string \<Rightarrow> string \<Rightarrow> error + bool" where
  "isRequiredField section fieldId =
     and_then
       (lookup_table
          [(''focus'', [''wantMore'']),
           (''influences'', [''energyGivers'', ''energyDrainers'']),
           (''connections'', [''ahaReflection'']),
           (''patterns'', [''keyLearning'']),
           (''goals'', [''goalStatement'']),
           (''commitment'', [''commitmentText''])]
          section)
       (\<lambda>entry. Inr (case entry of Some flds \<Rightarrow> fieldId \<in> set flds | None \<Rightarrow> False))"

text \<open>\<open>getRequiredFieldsForSection\<close>: \<open>requiredFields[section] || []\<close>\<close>

definition getRequiredFieldsForSection :: "string \<Rightarrow> error + string list" where
  "getRequiredFieldsForSection section =
     and_then
       (lookup_table
          [(''focus'', [''wantMore'']),
           (''influences'', [''energyGivers'', ''energyDrainers'']),
           (''connections'', [''ahaReflection'']),
           (''patterns'', [''keyLearning'']),
           (''goals'', [''goalStatement'']),
           (''roadmap'', [''milestone1'']),
           (''commitment'', [''commitmentText''])]
          section)
       (\<lambda>entry. Inr (case entry of Some flds \<Rightarrow> flds | None \<Rightarrow> []))"

text \<open>
  \<^verbatim>\<open>
  updateSectionProgress(section) {
      const requiredFields = this.getRequiredFieldsForSection(section);
      const completedFields = requiredFields.filter(field =>
          this.completedSections.has(`${section}.${field}`));
      const sectionProgress = requiredFields.length > 0
          ? (completedFields.length / requiredFields.length) * 100
          : 0;
      this.updateSectionIndicator(section, sectionProgress);
  }
  \<close>
  The model returns the percentage that is handed to \<open>updateSectionIndicator\<close>.
\<close>

definition completed_of :: "progress_tracker \<Rightarrow> string \<Rightarrow> string list \<Rightarrow> string list" where
  "completed_of pt section flds =
     filter (\<lambda>field. (section @ ''.'' @ field) \<in> set (completedSections pt)) flds"

definition updateSectionProgress :: "progress_tracker \<Rightarrow> string \<Rightarrow> error + rat" where
  "updateSectionProgress pt section =
     and_then (getRequiredFieldsForSection section) (\<lambda>flds.
       Inr (if length flds > 0
            then of_nat (length (completed_of pt section flds)) / of_nat (length flds) * 100
            else 0))"

text \<open>The class that \<open>updateSectionIndicator\<close> puts on the navigation button.\<close>

definition progress_class :: "rat \<Rightarrow> string" where
  "progress_class progress =
     (if progress \<ge> 100 then ''progress-100''
      else if progress \<ge> 75 then ''progress-75''
      else if progress \<ge> 50 then ''progress-50''
      else if progress \<ge> 25 then ''progress-25''
      else ''progress-0'')"

text \<open>
  \<open>updateFieldCompletionStatus(section, fieldId, isCompleted)\<close>: the composite key is
  added to or removed from the set, then the progress of the section is recomputed.
\<close>

definition updateFieldCompletionStatus ::
  "progress_tracker \<Rightarrow> string \<Rightarrow> string \<Rightarrow> bool \<Rightarrow> progress_tracker \<times> (error + rat)" where
  "updateFieldCompletionStatus pt section fieldId isCompleted =
     (let key = section @ ''.'' @ fieldId;
          pt' = pt\<lparr>completedSections :=
                  (if isCompleted then set_add key (completedSections pt)
                   else set_delete key (completedSections pt))\<rparr>
      in (pt', updateSectionProgress pt' section))"

text \<open>
  \<open>trackFieldCompletion(field)\<close>, called from the debounced \<open>input\<close> listener. Of the
  field the model keeps the id, the text and whether it carries the \<open>required\<close> attribute
  or class. The section is the one the tracker is on when the listener runs.
  \<^verbatim>\<open>
  const section = this.getCurrentSection();
  const fieldId = field.id;
  const value = field.value.trim();
  if (!section || !fieldId) return;
  const isRequired = field.hasAttribute('required') || field.classList.contains('required') ||
                     this.isRequiredField(section, fieldId);
  if (isRequired) {
      const isCompleted = value.length > 0;
      this.updateFieldCompletionStatus(section, fieldId, isCompleted);
  }
  \<close>
\<close>

record form_field =
  field_id :: string
  field_text :: string
  marked_required :: bool

definition getCurrentSection :: "progress_tracker \<Rightarrow> string option" where
  "getCurrentSection pt =
     (if currentSectionIndex pt < length (sections pt)
      then Some (sections pt ! currentSectionIndex pt) else None)"

definition trackFieldCompletion ::
  "progress_tracker \<Rightarrow> form_field \<Rightarrow> progress_tracker \<times> (error + rat) option" where
  "trackFieldCompletion pt field =
     (case getCurrentSection pt of
        None \<Rightarrow> (pt, None)
      | Some section \<Rightarrow>
          if section = [] \<or> field_id field = [] then (pt, None)
          else (case (if marked_required field then Inr True
                      else isRequiredField section (field_id field)) of
                  Inl e \<Rightarrow> (pt, Some (Inl e))
                | Inr isRequired \<Rightarrow>
                    if isRequired
                    then (let r = updateFieldCompletionStatus pt section (field_id field)
                                    (length (trim (field_text field)) > 0)
                          in (fst r, Some (snd r)))
                    else (pt, None)))"

text \<open>
  The entry of \<open>getCompletionSummary\<close> for one section: total, completed and
  \<^verbatim>\<open>requiredFields.length > 0 ? Math.round((completed / total) * 100) : 100\<close>.
\<close>

definition section_summary :: "progress_tracker \<Rightarrow> string \<Rightarrow> error + nat \<times> nat \<times> int" where
  "section_summary pt section =
     and_then (getRequiredFieldsForSection section) (\<lambda>flds.
       Inr (length flds, length (completed_of pt section flds),
            (if length flds > 0
             then math_round (of_nat (length (completed_of pt section flds)) / of_nat (length flds) * 100)
             else 100)))"

section \<open>Insight requestor\<close>

record ai_integration =
  apiKey :: jsval
  isEnabled :: bool
  baseUrl :: string

text \<open>\<open>isAvailable()\<close>: \<open>this.isEnabled && !!this.apiKey\<close>\<close>

definition isAvailable :: "ai_integration \<Rightarrow> bool" where
  "isAvailable ai \<longleftrightarrow> isEnabled ai \<and> truthy (apiKey ai)"

text \<open>
  \<open>getFallbackMessage(type)\<close>, called with literal types only. The dash U+2014 that two
  of the messages contain lies outside the code units of the model and is written
  \<open>--\<close> here.
\<close>

definition messages :: "(string \<times> string) list" where
  "messages =
     [(''insights'',
       ''Take a moment to reflect on the patterns you've identified. What connections do you notice between your energy givers and drainers? Often, the things that drain us point toward what we value most. Your insights are forming--trust the process.''),
      (''reflection'',
       ''You've completed a meaningful journey of self-discovery. The patterns you've uncovered and the commitment you've made are stepping stones toward the life you want. Trust your insights and take the next small step when you're ready.''),
      (''insights_error'',
       ''AI insights aren't available right now, but your own reflections are the most valuable part of this process. Take a moment to look for patterns in what you've written--what surprises you most?''),
      (''reflection_error'',
       ''While AI summary isn't available, you've done the real work of understanding your patterns and making a commitment to change. That's what creates lasting transformation.'')]"

definition getFallbackMessage :: "string \<Rightarrow> string" where
  "getFallbackMessage type =
     (case map_of messages type of
        Some m \<Rightarrow> m
      | None \<Rightarrow> ''Your insights are the most important part of this journey.'')"

text \<open>
  \<open>buildInfluencesPrompt(data)\<close>: the destructuring throws on \<open>undefined\<close> and \<open>null\<close>;
  each field is printed as \<open>${field || 'Not specified'}\<close>.
\<close>

definition or_not_specified :: "jsval \<Rightarrow> string \<Rightarrow> error + string" where
  "or_not_specified data name =
     and_then (get_prop data name) (\<lambda>v.
       to_string (if truthy v then v else JStr ''Not specified''))"

definition nl :: string where
  "nl = [CHR 0x0A]"

definition buildInfluencesPrompt :: "jsval \<Rightarrow> error + string" where
  "buildInfluencesPrompt data =
     and_then (or_not_specified data ''energyGivers'') (\<lambda>energyGivers.
     and_then (or_not_specified data ''energyDrainers'') (\<lambda>energyDrainers.
     and_then (or_not_specified data ''stuckRoutines'') (\<lambda>stuckRoutines.
     and_then (or_not_specified data ''expectations'') (\<lambda>expectations.
     and_then (or_not_specified data ''pressures'') (\<lambda>pressures.
       Inr (''As a supportive life coach, analyze these personal patterns and provide gentle, actionable insights:''
            @ nl @ nl
            @ ''ENERGY GIVERS: '' @ energyGivers @ nl
            @ ''ENERGY DRAINERS: '' @ energyDrainers @ nl
            @ ''STUCK ROUTINES: '' @ stuckRoutines @ nl
            @ ''EXTERNAL EXPECTATIONS: '' @ expectations @ nl
            @ ''PRESSURES: '' @ pressures @ nl @ nl
            @ ''Please provide 2-3 compassionate insights that help this person understand hidden patterns in their life. Focus on:''
            @ nl @ ''1. Connections they might not have noticed''
            @ nl @ ''2. One specific, gentle suggestion for change''
            @ nl @ ''3. Validation of their experience'' @ nl @ nl
            @ ''Keep the tone warm, non-judgmental, and encouraging. Limit response to 150 words.''))))))"

text \<open>
  The network. A request is the address and the prompt it carries (the generation
  parameters are constants). \<open>fetch\<close> either rejects or delivers a response, of which the
  program reads \<open>ok\<close> and the body through \<open>response.json()\<close>, which rejects on a body
  that is not JSON (\<open>None\<close>).
\<close>

record request =
  url :: string
  prompt_text :: string

datatype fetch_result =
    Rejected
  | Responded bool "jsval option"

text \<open>
  The text path of \<open>makeAPIRequest\<close>:
  \<^verbatim>\<open>
  if (data.candidates && data.candidates[0] && data.candidates[0].content) {
      return data.candidates[0].content.parts[0].text;
  } else { throw new Error('Unexpected API response format'); }
  \<close>
\<close>

definition response_text :: "jsval \<Rightarrow> error + jsval" where
  "response_text data =
     and_then (get_prop data ''candidates'') (\<lambda>candidates.
       if \<not> truthy candidates then Inl UnexpectedResponse
       else and_then (get_prop candidates ''0'') (\<lambda>candidate.
         if \<not> truthy candidate then Inl UnexpectedResponse
         else and_then (get_prop candidate ''content'') (\<lambda>content.
           if \<not> truthy content then Inl UnexpectedResponse
           else and_then (get_prop content ''parts'') (\<lambda>parts.
                and_then (get_prop parts ''0'') (\<lambda>part.
                get_prop part ''text'')))))"

text \<open>
  \<open>makeAPIRequest(prompt)\<close>, with the requests it has sent. The address is built before
  \<open>fetch\<close> is called, so a key that cannot be printed sends nothing.
\<close>

definition makeAPIRequest ::
  "(request \<Rightarrow> fetch_result) \<Rightarrow> ai_integration \<Rightarrow> string \<Rightarrow> (error + jsval) \<times> request list" where
  "makeAPIRequest fetch ai prompt =
     (case to_string (apiKey ai) of
        Inl e \<Rightarrow> (Inl e, [])
      | Inr key \<Rightarrow>
          (let req = \<lparr>url = baseUrl ai @ ''?key='' @ key, prompt_text = prompt\<rparr>
           in (case fetch req of
                 Rejected \<Rightarrow> (Inl NetworkError, [req])
               | Responded ok body \<Rightarrow>
                   if \<not> ok then (Inl RequestFailed, [req])
                   else (case body of
                           None \<Rightarrow> (Inl SyntaxError, [req])
                         | Some data \<Rightarrow> (response_text data, [req])))))"

text \<open>
  \<open>formatInsightsResponse(response)\<close>: only a string has a \<open>trim\<close> method to call.
\<close>

definition to_lower_char :: "char \<Rightarrow> char" where
  "to_lower_char c =
     (let n = (of_char c :: nat)
      in if (65 \<le> n \<and> n \<le> 90) \<or> (192 \<le> n \<and> n \<le> 222 \<and> n \<noteq> 215) then char_of (n + 32) else c)"

definition toLowerCase :: "string \<Rightarrow> string" where
  "toLowerCase s = map to_lower_char s"

fun str_includes :: "string \<Rightarrow> string \<Rightarrow> bool" where
  "str_includes [] pat = (pat = [])"
| "str_includes (x # xs) pat = (take (length pat) (x # xs) = pat \<or> str_includes xs pat)"

definition formatInsightsResponse :: "jsval \<Rightarrow> error + string" where
  "formatInsightsResponse response =
     (case response of
        JStr s \<Rightarrow>
          (let formatted = trim s
           in if \<not> str_includes (toLowerCase formatted) ''notice'' \<and> \<not> str_includes (toLowerCase formatted) ''see''
              then Inr (''Here's what I notice from your reflections:'' @ nl @ nl @ formatted)
              else Inr formatted)
      | _ \<Rightarrow> Inl TypeError)"

text \<open>
  \<^verbatim>\<open>
  async generateInfluencesInsights(influencesData) {
      if (!this.isAvailable()) { return this.getFallbackMessage('insights'); }
      const prompt = this.buildInfluencesPrompt(influencesData);
      try {
          const response = await this.makeAPIRequest(prompt);
          return this.formatInsightsResponse(response);
      } catch (error) { ...; return this.getFallbackMessage('insights_error'); }
  }
  \<close>
  The promise resolves to \<open>Inr\<close> a text or rejects with \<open>Inl\<close> an error; the second
  component lists the requests sent.
\<close>

definition generateInfluencesInsights ::
  "(request \<Rightarrow> fetch_result) \<Rightarrow> ai_integration \<Rightarrow> jsval \<Rightarrow> (error + string) \<times> request list" where
  "generateInfluencesInsights fetch ai influencesData =
     (if \<not> isAvailable ai then (Inr (getFallbackMessage ''insights''), [])
      else (case buildInfluencesPrompt influencesData of
              Inl e \<Rightarrow> (Inl e, [])
            | Inr prompt \<Rightarrow>
                (let r = makeAPIRequest fetch ai prompt
                 in (try_catch (and_then (fst r) formatInsightsResponse)
                       (\<lambda>error. Inr (getFallbackMessage ''insights_error'')),
                     snd r))))"

section \<open>Example documents and observations\<close>

text \<open>
  Whether a document has every section of the default structure and, in each, every
  field of the default structure as an own property.
\<close>

definition has_default_keys :: "string \<Rightarrow> jsval \<Rightarrow> bool" where
  "has_default_keys now d =
     list_all
       (\<lambda>(section, dflt).
          has_own d section
          \<and> (case get_prop d section of
                Inr sv \<Rightarrow> list_all (\<lambda>(field, x). has_own sv field) (own_props dflt)
              | Inl e \<Rightarrow> False))
       (own_props (getDefaultDataStructure now))"

text \<open>A stored document that has the four keys of the shape check, with an empty text for \<open>focus\<close>.\<close>

definition empty_focus_stored :: jsval where
  "empty_focus_stored =
     JObj [(''metadata'', JObj []), (''focus'', JStr []), (''influences'', JObj []),
           (''connections'', JObj [])]"

text \<open>An import payload that has the four keys of the shape check, with \<open>null\<close> for \<open>metadata\<close>.\<close>

definition null_metadata_payload :: jsval where
  "null_metadata_payload =
     JObj [(''metadata'', JNull), (''focus'', JObj []), (''influences'', JObj []),
           (''connections'', JObj [])]"

text \<open>A document whose seven anchor fields all hold one space.\<close>

definition blank_document :: jsval where
  "blank_document = JObj
     [(''metadata'', JObj [(''currentSection'', JStr ''welcome'')]),
      (''focus'', JObj [(''wantMore'', JStr '' '')]),
      (''influences'', JObj [(''energyGivers'', JStr '' ''), (''energyDrainers'', JStr '' '')]),
      (''connections'', JObj [(''ahaReflection'', JStr '' '')]),
      (''patterns'', JObj [(''keyLearning'', JStr '' '')]),
      (''goals'', JObj [(''goalStatement'', JStr '' '')]),
      (''commitment'', JObj [(''commitmentText'', JStr '' '')])]"

text \<open>
  The fresh document after the answer \<open>I want to feel less rushed\<close> to the focus step's
  \<open>wantMore\<close> question has been saved.
\<close>

definition entered_document :: jsval where
  "entered_document =
     snd (projr (saveField ''2026-01-01T10:05:00.000Z''
                   (getDefaultDataStructure ''2026-01-01T10:00:00.000Z'')
                   ''focus'' ''wantMore'' (JStr ''I want to feel less rushed'')))"

text \<open>The tracker on the mapping step, the fifth of the nine.\<close>

definition tracker_on_mapping :: progress_tracker where
  "tracker_on_mapping = new_tracker\<lparr>currentSectionIndex := 4\<rparr>"

text \<open>An assistant with a key, and a network that answers every request with an error status.\<close>

definition demo_ai :: ai_integration where
  "demo_ai =
     \<lparr> apiKey = JStr ''k'',
       isEnabled = True,
       baseUrl = ''https://generativelanguage.googleapis.com/v1beta/models/gemini-pro:generateContent'' \<rparr>"

definition failing_fetch :: "request \<Rightarrow> fetch_result" where
  "failing_fetch req = Responded False None"

text \<open>A small document with a stored answer, on the welcome step.\<close>

definition small_document :: jsval where
  "small_document = JObj
     [(''metadata'', JObj
         [(''created'', JStr ''2026-01-01T10:00:00.000Z''),
          (''lastModified'', JStr ''2026-01-01T10:05:00.000Z''),
          (''version'', JStr ''1.0''), (''currentSection'', JStr ''welcome'')]),
      (''focus'', JObj [(''wantMore'', JStr ''rest'')])]"

section \<open>Shapes of stored documents\<close>

text \<open>
  A plain document is an object whose sections are objects that hold no nested object,
  the shape \<open>persistData\<close> writes; none of its section names names an inherited member and
  no field is called \<open>__proto__\<close>.
\<close>

definition flat_object :: "jsval \<Rightarrow> bool" where
  "flat_object v =
     (case v of
        JObj ps \<Rightarrow> list_all (\<lambda>(k, x). k \<noteq> ''__proto__'' \<and> (case x of JObj qs \<Rightarrow> False | _ \<Rightarrow> True)) ps
      | _ \<Rightarrow> False)"

definition plain_document :: "jsval \<Rightarrow> bool" where
  "plain_document stored =
     (case stored of
        JObj ps \<Rightarrow> list_all (\<lambda>(k, sv). k \<notin> set inherited_names \<and> flat_object sv) ps
      | _ \<Rightarrow> False)"

text \<open>Relations between the property lists of a target before and after a merge.\<close>

definition keys_kept :: "(string \<times> jsval) list \<Rightarrow> (string \<times> jsval) list \<Rightarrow> bool" where
  "keys_kept ps qs \<longleftrightarrow> (\<forall>k. map_of ps k \<noteq> None \<longrightarrow> map_of qs k \<noteq> None)"

definition sections_kept :: "(string \<times> jsval) list \<Rightarrow> (string \<times> jsval) list \<Rightarrow> bool" where
  "sections_kept ps qs \<longleftrightarrow>
     (\<forall>k sec. map_of ps k = Some (JObj sec) \<longrightarrow>
        (\<exists>sec'. map_of qs k = Some (JObj sec') \<and> keys_kept sec sec'))"

definition all_objects :: "(string \<times> jsval) list \<Rightarrow> bool" where
  "all_objects ps \<longleftrightarrow> (\<forall>k v. map_of ps k = Some v \<longrightarrow> (\<exists>sec. v = JObj sec))"

section \<open>Properties of the list parser\<close>

lemma split_nonempty: "split c s \<noteq> []"
  by (induction s) (auto split: list.splits)

lemma join_split: "join [c] (split c s) = s"
proof (induction s)
  case Nil
  show ?case by simp
next
  case (Cons x xs)
  show ?case
  proof (cases "split c xs")
    case Nil
    then show ?thesis using split_nonempty by blast
  next
    case (Cons p ps)
    then show ?thesis using Cons.IH by (cases ps) auto
  qed
qed

lemma split_no_sep: "p \<in> set (split c s) \<Longrightarrow> c \<notin> set p"
  by (induction s arbitrary: p) (auto split: list.splits if_splits)

lemma trim_eq:
  "dropWhile is_space s = trim s @ rev (takeWhile is_space (rev (dropWhile is_space s)))"
proof -
  let ?t = "dropWhile is_space s"
  have "rev (rev ?t) = rev (takeWhile is_space (rev ?t) @ dropWhile is_space (rev ?t))"
    by (simp only: takeWhile_dropWhile_id)
  then show ?thesis
    by (simp only: rev_rev_ident rev_append trim_def)
qed

lemma trim_decomp:
  "\<exists>l r. s = l @ trim s @ r \<and> (\<forall>c\<in>set l. is_space c) \<and> (\<forall>c\<in>set r. is_space c)"
proof -
  let ?t = "dropWhile is_space s"
  let ?l = "takeWhile is_space s"
  let ?r = "rev (takeWhile is_space (rev ?t))"
  have "s = ?l @ ?t" by simp
  with trim_eq [of s] have 1: "s = ?l @ trim s @ ?r" by simp
  have 3: "\<forall>c\<in>set ?l. is_space c" by (meson set_takeWhileD)
  have 4: "\<forall>c\<in>set ?r. is_space c"
    by (metis set_rev set_takeWhileD)
  from 1 3 4 show ?thesis by blast
qed

lemma trim_hd: "trim s \<noteq> [] \<Longrightarrow> \<not> is_space (hd (trim s))"
proof -
  assume ne: "trim s \<noteq> []"
  let ?t = "dropWhile is_space s"
  have ne2: "?t \<noteq> []" using ne trim_eq [of s] by (metis append_is_Nil_conv)
  then have "\<not> is_space (hd ?t)" by (rule hd_dropWhile)
  moreover have "hd ?t = hd (trim s)" using ne trim_eq [of s] by (metis hd_append2)
  ultimately show ?thesis by simp
qed

lemma trim_last: "trim s \<noteq> [] \<Longrightarrow> \<not> is_space (last (trim s))"
proof -
  assume ne: "trim s \<noteq> []"
  let ?u = "dropWhile is_space (rev (dropWhile is_space s))"
  have "?u \<noteq> []" using ne by (simp add: trim_def)
  then have "\<not> is_space (hd ?u)" by (rule hd_dropWhile)
  moreover have "last (trim s) = hd ?u" using \<open>?u \<noteq> []\<close> by (simp add: trim_def last_rev)
  ultimately show ?thesis by simp
qed

lemma parse_string:
  "parseInfluenceText (JStr s) = take 4 (filter (\<lambda>item. item \<noteq> []) (map trim (split CHR '','' s)))"
  by (simp add: parseInfluenceText_def trim_def)


text \<open>
  Claim C6. On a string, \<open>parseInfluenceText\<close> returns the first four of the non-empty
  trimmed pieces between the commas of its input: the pieces joined by commas are the
  input and hold no comma themselves, each piece is its trimmed form between two runs of
  white space, every item returned is non-empty and neither starts nor ends with white
  space, and at most four items are returned. On \<open>"a, b,,  c ,d,e"\<close> the result is
  \<open>["a", "b", "c", "d"]\<close>.
\<close>

theorem parseInfluenceText_rule:
  "parseInfluenceText (JStr s) = take 4 (filter (\<lambda>item. item \<noteq> []) (map trim (split CHR '','' s)))
   \<and> join '','' (split CHR '','' s) = s
   \<and> (\<forall>piece\<in>set (split CHR '','' s). CHR '','' \<notin> set piece
        \<and> (\<exists>l r. piece = l @ trim piece @ r \<and> (\<forall>c\<in>set l. is_space c) \<and> (\<forall>c\<in>set r. is_space c)))
   \<and> (\<forall>item\<in>set (parseInfluenceText (JStr s)).
         item \<noteq> [] \<and> \<not> is_space (hd item) \<and> \<not> is_space (last item))
   \<and> length (parseInfluenceText (JStr s)) \<le> 4
   \<and> parseInfluenceText (JStr ''a, b,,  c ,d,e'') = [''a'', ''b'', ''c'', ''d'']"
proof (intro conjI)
  show "parseInfluenceText (JStr s) = take 4 (filter (\<lambda>item. item \<noteq> []) (map trim (split CHR '','' s)))"
    by (rule parse_string)
  show "join '','' (split CHR '','' s) = s" by (rule join_split)
  show "\<forall>piece\<in>set (split CHR '','' s). CHR '','' \<notin> set piece
        \<and> (\<exists>l r. piece = l @ trim piece @ r \<and> (\<forall>c\<in>set l. is_space c) \<and> (\<forall>c\<in>set r. is_space c))"
    using split_no_sep trim_decomp by blast
  show "\<forall>item\<in>set (parseInfluenceText (JStr s)).
         item \<noteq> [] \<and> \<not> is_space (hd item) \<and> \<not> is_space (last item)"
  proof
    fix item assume "item \<in> set (parseInfluenceText (JStr s))"
    then have "item \<in> set (filter (\<lambda>item. item \<noteq> []) (map trim (split CHR '','' s)))"
      unfolding parse_string by (rule in_set_takeD)
    then obtain piece where "item = trim piece" and "item \<noteq> []" by auto
    then show "item \<noteq> [] \<and> \<not> is_space (hd item) \<and> \<not> is_space (last item)"
      using trim_hd trim_last by blast
  qed
  show "length (parseInfluenceText (JStr s)) \<le> 4" by (simp add: parse_string)
  show "parseInfluenceText (JStr ''a, b,,  c ,d,e'') = [''a'', ''b'', ''c'', ''d'']"
    by (simp add: parseInfluenceText_def trim_def is_space_def)
qed

theorem parseInfluenceText_rule_witness:
  "''x y'' \<in> set (parseInfluenceText (JStr '' x y ,,z''))
   \<and> \<not> is_space (hd ''x y'') \<and> \<not> is_space (last ''x y'')
   \<and> '' x y '' \<in> set (split CHR '','' '' x y ,,z'') \<and> CHR '','' \<notin> set '' x y ''"
  using parseInfluenceText_rule [of "'' x y ,,z''"]
  by (simp add: trim_def is_space_def)









text \<open>
  A focus that is a number reaches \<open>truncateText\<close> and throws there, after the canvas has
  been emptied.
\<close>

lemma generateMap_number_focus:
  "generateMap (Some \<lparr>cv_offsetWidth = 800, cv_offsetHeight = 600, cv_children = old\<rparr>) ms
       (JObj [(''mapFocus'', JNum 12345)])
     = (Some TypeError,
        Some \<lparr>cv_offsetWidth = 800, cv_offsetHeight = 600, cv_children = []\<rparr>,
        ms\<lparr>ms_canvas := True, ms_elements := [createFocusElement 800 600 (JNum 12345)],
             ms_connections := []\<rparr>)"
  by (simp add: generateMap_def destructure_def and_then_def inherited_names_def
      createSurroundingElements_def parseInfluenceText_def createElement_def createFocusElement_def Let_def)



section \<open>Properties of the diagram layout\<close>

lemma parse_le4: "length (parseInfluenceText v) \<le> 4"
  by (cases v) (simp_all add: parseInfluenceText_def)

lemma giver_pos:
  assumes "i < length gs"
  shows "map (giver_element cx cy (length gs)) (enumerate 0 gs) ! i =
     \<lparr> el_id = ''giver-'' @ string_of_nat i, el_text = JStr (gs ! i), el_type = ''positive'',
       el_x = cx + cos (giver_angle (length gs) i) * radius,
       el_y = cy + sin (giver_angle (length gs) i) * radius,
       el_width = 100, el_height = 50, el_draggable = True \<rparr>"
  using assms by (simp add: giver_element_def nth_enumerate_eq)

lemma drainer_pos:
  assumes "i < length gs"
  shows "map (drainer_element cx cy (length gs)) (enumerate 0 gs) ! i =
     \<lparr> el_id = ''drainer-'' @ string_of_nat i, el_text = JStr (gs ! i), el_type = ''negative'',
       el_x = cx + cos (drainer_angle (length gs) i) * radius,
       el_y = cy + sin (drainer_angle (length gs) i) * radius,
       el_width = 100, el_height = 50, el_draggable = True \<rparr>"
  using assms by (simp add: drainer_element_def nth_enumerate_eq)


lemma giver_angle_eq:
  assumes "i < n"
  shows "giver_angle n i = - (pi / 2) + real i * (2 * pi / real n)"
proof -
  have "max n 1 = n" using assms by simp
  then show ?thesis by (simp add: giver_angle_def)
qed

lemma drainer_angle_eq:
  assumes "i < n"
  shows "drainer_angle n i = pi / 2 + real i * (2 * pi / real n)"
proof -
  have "max n 1 = n" using assms by simp
  then show ?thesis by (simp add: drainer_angle_def)
qed

lemma surround_shape:
  "snd (createSurroundingElements w h elements g d p) =
     elements @ map (giver_element (real_of_int w / 2) (real_of_int h / 2) (length (parseInfluenceText g)))
                    (enumerate 0 (parseInfluenceText g))
              @ map (drainer_element (real_of_int w / 2) (real_of_int h / 2) (length (parseInfluenceText d)))
                    (enumerate 0 (parseInfluenceText d))
              @ (case pattern_present p of Inr (Some s) \<Rightarrow> [pattern_element (real_of_int w / 2) (real_of_int h / 2) s] | _ \<Rightarrow> [])"
  by (simp add: createSurroundingElements_def Let_def split: sum.splits option.splits)

text \<open>
  Claim C4, as the code has it. Each list yields at most four nodes. The giver at index
  \<open>i\<close> of \<open>n\<close> is a positive node on the circle of radius 120 around the centre of the
  canvas at the angle \<open>-\<pi>/2 + i\<cdot>(2\<pi>/n)\<close>, the drainer at index \<open>j\<close> of \<open>m\<close> a negative
  node on the same circle at \<open>\<pi>/2 + j\<cdot>(2\<pi>/m)\<close>; the two base angles are a half turn
  apart. A pattern that is a non-blank string is the last node, 140 to the right of the
  centre and 100 above it. Angles are in radians and over the reals.
\<close>

theorem layout_angles:
  fixes w h :: int
  shows
  "length (parseInfluenceText energyGivers) \<le> 4 \<and> length (parseInfluenceText energyDrainers) \<le> 4
   \<and> (\<forall>i<length (parseInfluenceText energyGivers).
        el_type (snd (createSurroundingElements w h elements energyGivers energyDrainers pattern)
                   ! (length elements + i)) = ''positive''
      \<and> el_text (snd (createSurroundingElements w h elements energyGivers energyDrainers pattern)
                   ! (length elements + i)) = JStr (parseInfluenceText energyGivers ! i)
      \<and> el_x (snd (createSurroundingElements w h elements energyGivers energyDrainers pattern)
                   ! (length elements + i))
          = real_of_int w / 2
            + 120 * cos (- (pi / 2) + real i * (2 * pi / real (length (parseInfluenceText energyGivers))))
      \<and> el_y (snd (createSurroundingElements w h elements energyGivers energyDrainers pattern)
                   ! (length elements + i))
          = real_of_int h / 2
            + 120 * sin (- (pi / 2) + real i * (2 * pi / real (length (parseInfluenceText energyGivers)))))
   \<and> (\<forall>j<length (parseInfluenceText energyDrainers).
        el_type (snd (createSurroundingElements w h elements energyGivers energyDrainers pattern)
                   ! (length elements + length (parseInfluenceText energyGivers) + j)) = ''negative''
      \<and> el_text (snd (createSurroundingElements w h elements energyGivers energyDrainers pattern)
                   ! (length elements + length (parseInfluenceText energyGivers) + j))
          = JStr (parseInfluenceText energyDrainers ! j)
      \<and> el_x (snd (createSurroundingElements w h elements energyGivers energyDrainers pattern)
                   ! (length elements + length (parseInfluenceText energyGivers) + j))
          = real_of_int w / 2
            + 120 * cos (pi / 2 + real j * (2 * pi / real (length (parseInfluenceText energyDrainers))))
      \<and> el_y (snd (createSurroundingElements w h elements energyGivers energyDrainers pattern)
                   ! (length elements + length (parseInfluenceText energyGivers) + j))
          = real_of_int h / 2
            + 120 * sin (pi / 2 + real j * (2 * pi / real (length (parseInfluenceText energyDrainers)))))
   \<and> (\<forall>s. pattern = JStr s \<and> trim s \<noteq> [] \<longrightarrow>
        el_type (last (snd (createSurroundingElements w h elements energyGivers energyDrainers pattern))) = ''pattern''
      \<and> el_x (last (snd (createSurroundingElements w h elements energyGivers energyDrainers pattern)))
          = real_of_int w / 2 + 140
      \<and> el_y (last (snd (createSurroundingElements w h elements energyGivers energyDrainers pattern)))
          = real_of_int h / 2 - 100)
   \<and> (\<forall>n k. drainer_angle n k - giver_angle n k = pi)"
proof -
  let ?gs = "parseInfluenceText energyGivers"
  let ?ds = "parseInfluenceText energyDrainers"
  let ?out = "snd (createSurroundingElements w h elements energyGivers energyDrainers pattern)"
  let ?G = "map (giver_element (real_of_int w / 2) (real_of_int h / 2) (length ?gs)) (enumerate 0 ?gs)"
  let ?D = "map (drainer_element (real_of_int w / 2) (real_of_int h / 2) (length ?ds)) (enumerate 0 ?ds)"
  let ?T = "case pattern_present pattern of
              Inr (Some s) \<Rightarrow> [pattern_element (real_of_int w / 2) (real_of_int h / 2) s] | _ \<Rightarrow> []"
  have shape: "?out = elements @ ?G @ ?D @ ?T" by (rule surround_shape)
  have lenG: "length ?G = length ?gs" and lenD: "length ?D = length ?ds" by simp_all
  have G: "?out ! (length elements + i) = ?G ! i" if "i < length ?gs" for i
    using that unfolding shape by (simp add: nth_append)
  have D: "?out ! (length elements + length ?gs + j) = ?D ! j" if "j < length ?ds" for j
  proof -
    have "?out ! (length elements + length ?gs + j) = (?G @ ?D @ ?T) ! (length ?gs + j)"
      unfolding shape by (simp add: nth_append add.assoc)
    also have "\<dots> = (?D @ ?T) ! j"
      using lenG by (metis nth_append_length_plus)
    also have "\<dots> = ?D ! j" using that lenD by (simp add: nth_append)
    finally show ?thesis .
  qed
  have givers: "\<forall>i<length ?gs.
        el_type (?out ! (length elements + i)) = ''positive''
      \<and> el_text (?out ! (length elements + i)) = JStr (?gs ! i)
      \<and> el_x (?out ! (length elements + i))
          = real_of_int w / 2 + 120 * cos (- (pi / 2) + real i * (2 * pi / real (length ?gs)))
      \<and> el_y (?out ! (length elements + i))
          = real_of_int h / 2 + 120 * sin (- (pi / 2) + real i * (2 * pi / real (length ?gs)))"
  proof (intro allI impI)
    fix i assume i: "i < length ?gs"
    show "el_type (?out ! (length elements + i)) = ''positive''
      \<and> el_text (?out ! (length elements + i)) = JStr (?gs ! i)
      \<and> el_x (?out ! (length elements + i))
          = real_of_int w / 2 + 120 * cos (- (pi / 2) + real i * (2 * pi / real (length ?gs)))
      \<and> el_y (?out ! (length elements + i))
          = real_of_int h / 2 + 120 * sin (- (pi / 2) + real i * (2 * pi / real (length ?gs)))"
      unfolding G [OF i] giver_pos [OF i] giver_angle_eq [OF i]
      by (simp add: radius_def)
  qed
  have drainers: "\<forall>j<length ?ds.
        el_type (?out ! (length elements + length ?gs + j)) = ''negative''
      \<and> el_text (?out ! (length elements + length ?gs + j)) = JStr (?ds ! j)
      \<and> el_x (?out ! (length elements + length ?gs + j))
          = real_of_int w / 2 + 120 * cos (pi / 2 + real j * (2 * pi / real (length ?ds)))
      \<and> el_y (?out ! (length elements + length ?gs + j))
          = real_of_int h / 2 + 120 * sin (pi / 2 + real j * (2 * pi / real (length ?ds)))"
  proof (intro allI impI)
    fix j assume j: "j < length ?ds"
    show "el_type (?out ! (length elements + length ?gs + j)) = ''negative''
      \<and> el_text (?out ! (length elements + length ?gs + j)) = JStr (?ds ! j)
      \<and> el_x (?out ! (length elements + length ?gs + j))
          = real_of_int w / 2 + 120 * cos (pi / 2 + real j * (2 * pi / real (length ?ds)))
      \<and> el_y (?out ! (length elements + length ?gs + j))
          = real_of_int h / 2 + 120 * sin (pi / 2 + real j * (2 * pi / real (length ?ds)))"
      unfolding D [OF j] drainer_pos [OF j] drainer_angle_eq [OF j]
      by (simp add: radius_def)
  qed
  have pat: "\<forall>s. pattern = JStr s \<and> trim s \<noteq> [] \<longrightarrow>
        el_type (last ?out) = ''pattern''
      \<and> el_x (last ?out) = real_of_int w / 2 + 140
      \<and> el_y (last ?out) = real_of_int h / 2 - 100"
  proof (intro allI impI)
    fix s assume a: "pattern = JStr s \<and> trim s \<noteq> []"
    then have "s \<noteq> []" by (auto simp: trim_def)
    with a have "?T = [pattern_element (real_of_int w / 2) (real_of_int h / 2) s]" by simp
    then have "last ?out = pattern_element (real_of_int w / 2) (real_of_int h / 2) s"
      unfolding shape by simp
    then show "el_type (last ?out) = ''pattern''
      \<and> el_x (last ?out) = real_of_int w / 2 + 140
      \<and> el_y (last ?out) = real_of_int h / 2 - 100"
      by (simp add: pattern_element_def)
  qed
  have half: "\<forall>n k. drainer_angle n k - giver_angle n k = pi"
    by (simp add: giver_angle_def drainer_angle_def)
  from givers drainers pat half parse_le4 show ?thesis by blast
qed

theorem layout_angles_witness:
  "(1::nat) < length (parseInfluenceText (JStr ''rest, walks''))
   \<and> el_x (snd (createSurroundingElements 800 600 [] (JStr ''rest, walks'') (JStr ''email'') (JStr ''late nights'')) ! 1)
     = 400
   \<and> el_y (snd (createSurroundingElements 800 600 [] (JStr ''rest, walks'') (JStr ''email'') (JStr ''late nights'')) ! 1)
     = 420"
  using layout_angles [of "JStr ''rest, walks''" "JStr ''email''" 800 600 "[]" "JStr ''late nights''",
      THEN conjunct2, THEN conjunct2, THEN conjunct1, rule_format, of 1]
  by (simp add: parseInfluenceText_def trim_def is_space_def)

text \<open>
  With four givers and four drainers the third giver and the first drainer are put on the
  same point, and the offset between the two groups is a half turn, not a quarter turn.
\<close>

theorem layout_counterexample:
  "el_x (snd (createSurroundingElements 800 600 [] (JStr ''a,b,c,d'') (JStr ''e,f,g,h'') JUndefined) ! 2)
     = el_x (snd (createSurroundingElements 800 600 [] (JStr ''a,b,c,d'') (JStr ''e,f,g,h'') JUndefined) ! 4)
   \<and> el_y (snd (createSurroundingElements 800 600 [] (JStr ''a,b,c,d'') (JStr ''e,f,g,h'') JUndefined) ! 2)
     = el_y (snd (createSurroundingElements 800 600 [] (JStr ''a,b,c,d'') (JStr ''e,f,g,h'') JUndefined) ! 4)
   \<and> el_type (snd (createSurroundingElements 800 600 [] (JStr ''a,b,c,d'') (JStr ''e,f,g,h'') JUndefined) ! 2) = ''positive''
   \<and> el_type (snd (createSurroundingElements 800 600 [] (JStr ''a,b,c,d'') (JStr ''e,f,g,h'') JUndefined) ! 4) = ''negative''
   \<and> drainer_angle 4 0 - giver_angle 4 0 = pi
   \<and> drainer_angle 4 0 - giver_angle 4 0 \<noteq> pi / 2"
  by (simp add: createSurroundingElements_def parseInfluenceText_def trim_def is_space_def
      giver_element_def drainer_element_def giver_angle_def drainer_angle_def enumerate_eq_zip)

section \<open>Properties of the document model\<close>

lemma assign2_obj:
  assumes "assign2 (JObj ps) a b v = Inr d'"
  shows "\<exists>ips. map_of ps a = Some (JObj ips) \<and> b \<noteq> ''__proto__''
           \<and> d' = JObj (AList.update a (JObj (AList.update b v ips)) ps)"
proof (cases "map_of ps a")
  case None
  with assms show ?thesis by (simp add: assign2_def and_then_def split: if_splits)
next
  case (Some inner)
  with assms show ?thesis
    by (cases inner) (simp_all add: assign2_def and_then_def split: if_splits)
qed

lemma assign2_error:
  assumes "assign2 (JObj ps) a b v = Inl e" "a \<notin> set inherited_names" "b \<noteq> ''__proto__''"
  shows "e = Unmodelled \<longleftrightarrow> (\<exists>xs. map_of ps a = Some (JArr xs))"
proof (cases "map_of ps a")
  case None
  with assms show ?thesis by (simp add: assign2_def and_then_def split: if_splits)
next
  case (Some inner)
  with assms show ?thesis
    by (cases inner) (simp_all add: assign2_def and_then_def split: if_splits)
qed

text \<open>
  Claim C9. On a document (an object) \<open>saveCurrentSection(s)\<close> succeeds exactly when
  \<open>metadata\<close> is an object. It then leaves every section other than \<open>metadata\<close> as it
  is and, within \<open>metadata\<close>, every own property other than \<open>currentSection\<close>
  (\<open>created\<close>, \<open>version\<close> and \<open>lastModified\<close> among them), and sets \<open>currentSection\<close>
  to \<open>s\<close>; every field other than \<open>metadata.currentSection\<close> reads as before through
  \<open>getField\<close>. When the call throws, the document is unchanged. (With an array for
  \<open>metadata\<close> the model does not follow the program.)
\<close>

theorem saveCurrentSection_frame:
  assumes "saveCurrentSection (JObj ps) s = (r, d')"
  shows "(r = Some Unmodelled \<longleftrightarrow> (\<exists>xs. map_of ps ''metadata'' = Some (JArr xs)))
     \<and> (r = None \<longleftrightarrow> (\<exists>mps. map_of ps ''metadata'' = Some (JObj mps)))
     \<and> (r \<noteq> None \<and> r \<noteq> Some Unmodelled \<longrightarrow> d' = JObj ps)
     \<and> (r = None \<longrightarrow>
          (\<exists>ps' mps mps'. d' = JObj ps'
             \<and> (\<forall>section. section \<noteq> ''metadata'' \<longrightarrow> map_of ps' section = map_of ps section)
             \<and> map_of ps ''metadata'' = Some (JObj mps) \<and> map_of ps' ''metadata'' = Some (JObj mps')
             \<and> (\<forall>field. field \<noteq> ''currentSection'' \<longrightarrow> map_of mps' field = map_of mps field)
             \<and> map_of mps' ''currentSection'' = Some (JStr s))
        \<and> (\<forall>section field dv. (section, field) \<noteq> (''metadata'', ''currentSection'') \<longrightarrow>
               getField d' section field dv = getField (JObj ps) section field dv))"
proof (cases "assign2 (JObj ps) ''metadata'' ''currentSection'' (JStr s)")
  case (Inl e)
  with assms have r: "r = Some e" and d: "d' = JObj ps"
    by (simp_all add: saveCurrentSection_def run_def)
  have "e = Unmodelled \<longleftrightarrow> (\<exists>xs. map_of ps ''metadata'' = Some (JArr xs))"
    using Inl by (rule assign2_error) (simp_all add: inherited_names_def)
  moreover have "\<not> (\<exists>mps. map_of ps ''metadata'' = Some (JObj mps))"
    using Inl by (auto simp add: assign2_def and_then_def)
  ultimately show ?thesis using r d by auto
next
  case (Inr d2)
  with assms have r: "r = None" and d: "d' = d2"
    by (simp_all add: saveCurrentSection_def run_def)
  from assign2_obj [OF Inr] obtain mps where m: "map_of ps ''metadata'' = Some (JObj mps)"
    and d2: "d2 = JObj (AList.update ''metadata'' (JObj (AList.update ''currentSection'' (JStr s) mps)) ps)"
    by blast
  let ?mq = "AList.update ''currentSection'' (JStr s) mps"
  let ?pq = "AList.update ''metadata'' (JObj ?mq) ps"
  have 1: "\<forall>section. section \<noteq> ''metadata'' \<longrightarrow> map_of ?pq section = map_of ps section"
    by (simp add: update_conv')
  have 2: "map_of ?pq ''metadata'' = Some (JObj ?mq)" by (simp add: update_conv')
  have 3: "\<forall>field. field \<noteq> ''currentSection'' \<longrightarrow> map_of ?mq field = map_of mps field"
    by (simp add: update_conv')
  have 4: "map_of ?mq ''currentSection'' = Some (JStr s)" by (simp add: update_conv')
  have 5: "getField d' sec field dv = getField (JObj ps) sec field dv"
    if "(sec, field) \<noteq> (''metadata'', ''currentSection'')" for sec field dv
  proof (cases "sec = ''metadata''")
    case True
    with that have "field \<noteq> ''currentSection''" by simp
    with True m show ?thesis
      by (simp add: d d2 getField_def and_then_def try_catch_def update_conv')
  next
    case False
    then show ?thesis
      by (simp add: d d2 getField_def and_then_def try_catch_def update_conv')
  qed
  from r d d2 m 1 2 3 4 5 show ?thesis by auto
qed

theorem saveCurrentSection_frame_witness:
  "saveCurrentSection small_document ''focus'' =
     (None, JObj
       [(''metadata'', JObj
           [(''created'', JStr ''2026-01-01T10:00:00.000Z''),
            (''lastModified'', JStr ''2026-01-01T10:05:00.000Z''),
            (''version'', JStr ''1.0''), (''currentSection'', JStr ''focus'')]),
        (''focus'', JObj [(''wantMore'', JStr ''rest'')])])
   \<and> getField (snd (saveCurrentSection small_document ''focus'')) ''metadata'' ''lastModified'' (JStr [])
       = getField small_document ''metadata'' ''lastModified'' (JStr [])
   \<and> getField (snd (saveCurrentSection small_document ''focus'')) ''focus'' ''wantMore'' (JStr [])
       = getField small_document ''focus'' ''wantMore'' (JStr [])"
proof -
  let ?D = "JObj
       [(''metadata'', JObj
           [(''created'', JStr ''2026-01-01T10:00:00.000Z''),
            (''lastModified'', JStr ''2026-01-01T10:05:00.000Z''),
            (''version'', JStr ''1.0''), (''currentSection'', JStr ''focus'')]),
        (''focus'', JObj [(''wantMore'', JStr ''rest'')])]"
  have e: "saveCurrentSection small_document ''focus'' = (None, ?D)"
    by (simp add: small_document_def saveCurrentSection_def run_def assign2_def and_then_def)
  from saveCurrentSection_frame [OF e [unfolded small_document_def], folded small_document_def]
  have g: "\<forall>sec field dv. (sec, field) \<noteq> (''metadata'', ''currentSection'') \<longrightarrow>
          getField ?D sec field dv = getField small_document sec field dv"
    by blast
  have "getField ?D ''metadata'' ''lastModified'' (JStr []) = getField small_document ''metadata'' ''lastModified'' (JStr [])"
    using g [rule_format, of "''metadata''" "''lastModified''" "JStr []"] by simp
  moreover have "getField ?D ''focus'' ''wantMore'' (JStr []) = getField small_document ''focus'' ''wantMore'' (JStr [])"
    using g [rule_format, of "''focus''" "''wantMore''" "JStr []"] by simp
  ultimately show ?thesis by (simp add: e)
qed

text \<open>By contrast a successful \<open>saveField\<close> leaves the time of the call in \<open>lastModified\<close>.\<close>

lemma saveField_stamps:
  assumes "saveField now (JObj ps) section field v = Inr (True, d')"
  shows "and_then (get_prop d' ''metadata'') (\<lambda>m. get_prop m ''lastModified'') = Inr (JStr now)"
proof -
  from assms obtain d1 d2 where
    1: "ensure_section (JObj ps) section = Inr d1" and
    2: "assign2 d1 section field v = Inr d2" and
    3: "assign2 d2 ''metadata'' ''lastModified'' (JStr now) = Inr d'"
    by (auto simp add: saveField_def returns_bool_def next_stmt_def run_def split: sum.splits if_splits)
  from 1 obtain ps1 where "d1 = JObj ps1"
    by (auto simp add: ensure_section_def and_then_def split: sum.splits if_splits option.splits)
  with 2 obtain ps2 where "d2 = JObj ps2" using assign2_obj by blast
  with 3 obtain mps where "d' = JObj (AList.update ''metadata'' (JObj (AList.update ''lastModified'' (JStr now) mps)) ps2)"
    using assign2_obj by blast
  then show ?thesis by (simp add: and_then_def update_conv')
qed


lemma math_round_pct: "math_round (of_nat k / of_nat 7 * 100) = (200 * int k + 7) div 14"
proof -
  have "(of_nat k / of_nat 7 * 100 + 1 / 2 :: rat) = of_int (200 * int k + 7) / of_int 14"
    by (simp add: field_simps)
  then show ?thesis
    unfolding math_round_def by (simp only: floor_divide_of_int_eq)
qed

lemma length_requiredFields: "length requiredFields = 7"
  by (simp add: requiredFields_def)

lemma percentage_of_count:
  "count_completed d requiredFields = Inr n \<Longrightarrow>
   getCompletionPercentage d = Inr ((200 * int n + 7) div 14)"
  by (simp only: getCompletionPercentage_def and_then_def sum.case length_requiredFields math_round_pct)

lemma count_all:
  "(\<forall>fp\<in>set fps. field_completed d fp = Inr True) \<Longrightarrow> count_completed d fps = Inr (length fps)"
  by (induction fps) (simp_all add: and_then_def)

lemma count_mono:
  "(\<forall>fp\<in>set fps. \<exists>b b'. field_completed d fp = Inr b \<and> field_completed d' fp = Inr b' \<and> (b \<longrightarrow> b'))
   \<Longrightarrow> \<exists>n n'. count_completed d fps = Inr n \<and> count_completed d' fps = Inr n' \<and> n \<le> n'
         \<and> n' \<le> length fps"
proof (induction fps)
  case Nil
  then show ?case by simp
next
  case (Cons fp fps)
  then obtain n n' where "count_completed d fps = Inr n" "count_completed d' fps = Inr n'" "n \<le> n'"
    "n' \<le> length fps"
    by auto
  moreover from Cons.prems obtain b b' where
    "field_completed d fp = Inr b" "field_completed d' fp = Inr b'" "b \<longrightarrow> b'"
    by auto
  ultimately show ?case by (auto simp add: and_then_def)
qed

lemma get_prop_modelled:
  "k \<notin> set inherited_names \<Longrightarrow> get_prop d k = Inl e \<Longrightarrow> e = TypeError"
  by (cases d) (simp_all split: option.splits if_splits)

lemma call_hasOwnProperty_cases:
  "call_hasOwnProperty sv f = Inl TypeError \<or> call_hasOwnProperty sv f = Inr (has_own sv f)"
  by (cases sv) simp_all

lemma get_own_prop: "has_own sv f \<Longrightarrow> \<exists>v. get_prop sv f = Inr v"
  by (cases sv) (auto split: option.splits)

lemma getField_total:
  assumes "section \<notin> set inherited_names"
  shows "\<exists>v. getField d section field dv = Inr v"
proof (cases "get_prop d section")
  case (Inl e)
  from assms Inl have "e = TypeError" by (rule get_prop_modelled)
  with Inl show ?thesis by (simp add: getField_def try_catch_def and_then_def)
next
  case (Inr sv)
  show ?thesis
  proof (cases "truthy sv")
    case False
    with Inr show ?thesis by (simp add: getField_def try_catch_def and_then_def)
  next
    case True
    from call_hasOwnProperty_cases [of sv field] show ?thesis
    proof
      assume "call_hasOwnProperty sv field = Inl TypeError"
      with Inr True show ?thesis by (simp add: getField_def try_catch_def and_then_def)
    next
      assume c: "call_hasOwnProperty sv field = Inr (has_own sv field)"
      show ?thesis
      proof (cases "has_own sv field")
        case False
        with c Inr True show ?thesis by (simp add: getField_def try_catch_def and_then_def)
      next
        case h: True
        then obtain v where "get_prop sv field = Inr v" using get_own_prop by blast
        with h c Inr True show ?thesis by (simp add: getField_def try_catch_def and_then_def)
      qed
    qed
  qed
qed

lemma anchor_total: "fp \<in> set requiredFields \<Longrightarrow> \<exists>v. anchor_value d fp = Inr v"
  by (auto simp add: requiredFields_def anchor_value_def inherited_names_def intro!: getField_total)

text \<open>
  Claim C5, as the code has it. \<open>getCompletionPercentage\<close> is 0 on a freshly defaulted
  document; it is 100 when each of the seven anchor fields reads as a string that is not
  empty after trimming; and when one anchor field that read as the empty string reads as a
  non-empty string afterwards while the six others read as before, the percentage exists
  before and after, lies between 0 and 100 and has not decreased.
\<close>

theorem completion_percentage:
  "getCompletionPercentage (getDefaultDataStructure now) = Inr 0
   \<and> ((\<forall>fp\<in>set requiredFields. \<exists>s. anchor_value d fp = Inr (JStr s) \<and> trim s \<noteq> [])
        \<longrightarrow> getCompletionPercentage d = Inr 100)
   \<and> (edited \<in> set requiredFields
        \<and> anchor_value d edited = Inr (JStr [])
        \<and> anchor_value d' edited = Inr (JStr v) \<and> v \<noteq> []
        \<and> (\<forall>fp\<in>set requiredFields. fp \<noteq> edited \<longrightarrow> anchor_value d' fp = anchor_value d fp)
        \<longrightarrow> (\<exists>p p'. getCompletionPercentage d = Inr p \<and> getCompletionPercentage d' = Inr p'
                    \<and> 0 \<le> p \<and> p \<le> p' \<and> p' \<le> 100))"
proof (intro conjI impI)
  show "getCompletionPercentage (getDefaultDataStructure now) = Inr 0"
  proof -
    have "count_completed (getDefaultDataStructure now) requiredFields = Inr 0"
      by (simp add: requiredFields_def field_completed_def anchor_value_def getField_def
          getDefaultDataStructure_def try_catch_def and_then_def is_filled_def)
    then show ?thesis by (simp add: percentage_of_count)
  qed
next
  assume a: "\<forall>fp\<in>set requiredFields. \<exists>s. anchor_value d fp = Inr (JStr s) \<and> trim s \<noteq> []"
  have "\<forall>fp\<in>set requiredFields. field_completed d fp = Inr True"
  proof
    fix fp assume "fp \<in> set requiredFields"
    with a obtain s where "anchor_value d fp = Inr (JStr s)" "trim s \<noteq> []" by blast
    moreover from this have "s \<noteq> []" by (auto simp: trim_def)
    ultimately show "field_completed d fp = Inr True"
      by (simp add: field_completed_def and_then_def is_filled_def)
  qed
  then have "count_completed d requiredFields = Inr 7"
    using count_all [of requiredFields d] by (simp add: length_requiredFields)
  then show "getCompletionPercentage d = Inr 100" by (simp add: percentage_of_count)
next
  assume a: "edited \<in> set requiredFields
        \<and> anchor_value d edited = Inr (JStr [])
        \<and> anchor_value d' edited = Inr (JStr v) \<and> v \<noteq> []
        \<and> (\<forall>fp\<in>set requiredFields. fp \<noteq> edited \<longrightarrow> anchor_value d' fp = anchor_value d fp)"
  have "\<forall>fp\<in>set requiredFields. \<exists>b b'. field_completed d fp = Inr b \<and> field_completed d' fp = Inr b' \<and> (b \<longrightarrow> b')"
  proof
    fix fp assume fp: "fp \<in> set requiredFields"
    show "\<exists>b b'. field_completed d fp = Inr b \<and> field_completed d' fp = Inr b' \<and> (b \<longrightarrow> b')"
    proof (cases "fp = edited")
      case True
      with a have "field_completed d fp = Inr False"
        by (simp add: field_completed_def and_then_def is_filled_def)
      moreover from True a have "\<exists>b'. field_completed d' fp = Inr b'"
        by (simp add: field_completed_def and_then_def)
      ultimately show ?thesis by auto
    next
      case False
      with a fp have "anchor_value d' fp = anchor_value d fp" by blast
      moreover from fp obtain x where "anchor_value d fp = Inr x" using anchor_total by blast
      ultimately show ?thesis by (simp add: field_completed_def and_then_def)
    qed
  qed
  then obtain n n' where n: "count_completed d requiredFields = Inr n"
    and n': "count_completed d' requiredFields = Inr n'" and le: "n \<le> n'"
    and "n' \<le> length requiredFields"
    using count_mono by blast
  then have "n' \<le> 7" by (simp add: length_requiredFields)
  have "(200 * int n + 7) div 14 \<le> (200 * int n' + 7) div 14"
    using le by (intro zdiv_mono1) simp_all
  moreover have "(200 * int n' + 7) div 14 \<le> 100" using \<open>n' \<le> 7\<close> by simp
  moreover have "0 \<le> (200 * int n + 7) div 14" by simp
  ultimately show "\<exists>p p'. getCompletionPercentage d = Inr p \<and> getCompletionPercentage d' = Inr p'
                    \<and> 0 \<le> p \<and> p \<le> p' \<and> p' \<le> 100"
    using percentage_of_count [OF n] percentage_of_count [OF n'] by simp
qed

theorem completion_percentage_witness:
  "anchor_value small_document ''focus.wantMore'' = Inr (JStr ''rest'')
   \<and> anchor_value (JObj [(''focus'', JObj [(''wantMore'', JStr [])])]) ''focus.wantMore'' = Inr (JStr [])
   \<and> getCompletionPercentage (JObj [(''focus'', JObj [(''wantMore'', JStr [])])]) = Inr 0
   \<and> getCompletionPercentage small_document = Inr 14
   \<and> (\<exists>p p'. getCompletionPercentage (JObj [(''focus'', JObj [(''wantMore'', JStr [])])]) = Inr p
              \<and> getCompletionPercentage small_document = Inr p' \<and> p \<le> p')"
proof -
  let ?d = "JObj [(''focus'', JObj [(''wantMore'', JStr [])])]"
  have 1: "''focus.wantMore'' \<in> set requiredFields" by (simp add: requiredFields_def)
  have 2: "anchor_value ?d ''focus.wantMore'' = Inr (JStr [])"
    by (simp add: anchor_value_def getField_def try_catch_def and_then_def)
  have 3: "anchor_value small_document ''focus.wantMore'' = Inr (JStr ''rest'')"
    by (simp add: anchor_value_def getField_def try_catch_def and_then_def small_document_def)
  have 4: "\<forall>fp\<in>set requiredFields. fp \<noteq> ''focus.wantMore'' \<longrightarrow>
             anchor_value small_document fp = anchor_value ?d fp"
    by (simp add: requiredFields_def anchor_value_def getField_def try_catch_def and_then_def
        small_document_def inherited_names_def)
  have 5: "getCompletionPercentage ?d = Inr 0"
    by (simp add: percentage_of_count requiredFields_def field_completed_def anchor_value_def
        getField_def try_catch_def and_then_def is_filled_def inherited_names_def)
  have 6: "getCompletionPercentage small_document = Inr 14"
    by (simp add: percentage_of_count requiredFields_def field_completed_def anchor_value_def
        getField_def try_catch_def and_then_def is_filled_def inherited_names_def small_document_def
        trim_def is_space_def)
  from completion_percentage [of "[]" ?d "''focus.wantMore''" small_document "''rest''"] 1 2 3 4
  have "\<exists>p p'. getCompletionPercentage ?d = Inr p \<and> getCompletionPercentage small_document = Inr p'
              \<and> p \<le> p'"
    by auto
  with 2 3 5 6 show ?thesis by blast
qed

text \<open>
  Seven anchor fields that are non-empty strings, each one space, give 0 and not 100.
\<close>

theorem completion_percentage_counterexample:
  "map (anchor_value blank_document) requiredFields = replicate 7 (Inr (JStr '' ''))
   \<and> getCompletionPercentage blank_document = Inr 0"
proof -
  have "count_completed blank_document requiredFields = Inr 0"
    by (simp add: requiredFields_def field_completed_def anchor_value_def getField_def
        blank_document_def try_catch_def and_then_def is_filled_def trim_def is_space_def)
  moreover have "map (anchor_value blank_document) requiredFields = replicate 7 (Inr (JStr '' ''))"
    by (simp add: requiredFields_def anchor_value_def getField_def blank_document_def try_catch_def
        and_then_def numeral_eq_Suc)
  ultimately show ?thesis by (simp add: percentage_of_count)
qed

section \<open>Merging a plain document onto the defaults\<close>

lemma keys_kept_refl: "keys_kept ps ps"
  by (simp add: keys_kept_def)

lemma keys_kept_update: "keys_kept ps (AList.update k v ps)"
  by (simp add: keys_kept_def update_conv')

lemma keys_kept_trans: "keys_kept ps qs \<Longrightarrow> keys_kept qs rs \<Longrightarrow> keys_kept ps rs"
  by (simp add: keys_kept_def)

lemma sections_kept_refl: "sections_kept ps ps"
  by (auto simp add: sections_kept_def keys_kept_refl)

lemma sections_kept_trans: "sections_kept ps qs \<Longrightarrow> sections_kept qs rs \<Longrightarrow> sections_kept ps rs"
  unfolding sections_kept_def by (meson keys_kept_trans)

lemma sections_kept_update:
  assumes "\<And>sec. map_of ps k = Some (JObj sec) \<Longrightarrow> keys_kept sec sec'"
  shows "sections_kept ps (AList.update k (JObj sec') ps)"
  using assms by (auto simp add: sections_kept_def update_conv' keys_kept_refl)

lemma all_objects_update: "all_objects ps \<Longrightarrow> all_objects (AList.update k (JObj sec) ps)"
  by (auto simp add: all_objects_def update_conv' split: if_splits)

lemma merge_flat:
  assumes "list_all (\<lambda>(k, x). k \<noteq> ''__proto__'' \<and> (case x of JObj qs \<Rightarrow> False | _ \<Rightarrow> True)) sps"
  shows "\<exists>tps'. mergeObjects (JObj tps) sps = Inr (JObj tps') \<and> keys_kept tps tps'"
  using assms
proof (induction sps arbitrary: tps)
  case Nil
  then show ?case by (simp add: keys_kept_refl)
next
  case (Cons p sps)
  obtain k x where p: "p = (k, x)" by (cases p)
  with Cons.prems have k: "k \<noteq> ''__proto__''" and x: "\<And>qs. x \<noteq> JObj qs"
    and rest: "list_all (\<lambda>(k, x). k \<noteq> ''__proto__'' \<and> (case x of JObj qs \<Rightarrow> False | _ \<Rightarrow> True)) sps"
    by (auto split: jsval.splits)
  from x k have step: "mergeObjects (JObj tps) ((k, x) # sps) = mergeObjects (JObj (AList.update k x tps)) sps"
    by (cases x) (auto simp add: and_then_def)
  from Cons.IH [OF rest, of "AList.update k x tps"] obtain tps' where
    "mergeObjects (JObj (AList.update k x tps)) sps = Inr (JObj tps')" "keys_kept (AList.update k x tps) tps'"
    by blast
  with step p show ?case using keys_kept_trans [OF keys_kept_update] by auto
qed

lemma merge_sections:
  assumes "list_all (\<lambda>(k, sv). k \<notin> set inherited_names \<and> flat_object sv) ps" "all_objects tps"
  shows "\<exists>tps'. mergeObjects (JObj tps) ps = Inr (JObj tps') \<and> all_objects tps' \<and> sections_kept tps tps'"
  using assms
proof (induction ps arbitrary: tps)
  case Nil
  then show ?case by (simp add: sections_kept_refl)
next
  case (Cons p ps)
  obtain k sv where p: "p = (k, sv)" by (cases p)
  with Cons.prems obtain sps where k: "k \<notin> set inherited_names" and sv: "sv = JObj sps"
    and flat: "list_all (\<lambda>(k, x). k \<noteq> ''__proto__'' \<and> (case x of JObj qs \<Rightarrow> False | _ \<Rightarrow> True)) sps"
    and rest: "list_all (\<lambda>(k, sv). k \<notin> set inherited_names \<and> flat_object sv) ps"
    by (auto simp add: flat_object_def split: jsval.splits)
  from k have kp: "k \<noteq> ''__proto__''" by (auto simp add: inherited_names_def)
  have "\<exists>sec'. mergeObjects (JObj tps) ((k, JObj sps) # ps) = mergeObjects (JObj (AList.update k (JObj sec') tps)) ps
          \<and> (\<forall>sec. map_of tps k = Some (JObj sec) \<longrightarrow> keys_kept sec sec')"
  proof (cases "map_of tps k")
    case None
    from merge_flat [OF flat, of "[]"] obtain sec' where
      m: "mergeObjects (JObj []) sps = Inr (JObj sec')" by blast
    with None k kp show ?thesis by (intro exI [of _ sec']) (simp add: and_then_def)
  next
    case (Some tv)
    with Cons.prems(2) obtain sec where tv: "tv = JObj sec" by (auto simp add: all_objects_def)
    from merge_flat [OF flat, of sec] obtain sec' where
      m: "mergeObjects (JObj sec) sps = Inr (JObj sec')" and kk: "keys_kept sec sec'" by blast
    with Some tv show ?thesis by (intro exI [of _ sec']) (simp add: and_then_def)
  qed
  then obtain sec' where
    step: "mergeObjects (JObj tps) ((k, JObj sps) # ps) = mergeObjects (JObj (AList.update k (JObj sec') tps)) ps"
    and kk: "\<And>sec. map_of tps k = Some (JObj sec) \<Longrightarrow> keys_kept sec sec'"
    by blast
  from Cons.IH [OF rest all_objects_update [OF Cons.prems(2)], of k sec'] obtain tps' where
    "mergeObjects (JObj (AList.update k (JObj sec') tps)) ps = Inr (JObj tps')" "all_objects tps'"
    "sections_kept (AList.update k (JObj sec') tps) tps'"
    by blast
  with step p sv sections_kept_trans [OF sections_kept_update [of tps k sec', OF kk]]
  show ?case by auto
qed

lemma default_objects: "getDefaultDataStructure now = JObj dps \<Longrightarrow> all_objects dps \<and> distinct (map fst dps)"
  by (auto simp add: getDefaultDataStructure_def all_objects_def split: if_splits)

lemma deepClone_default: "deepClone (getDefaultDataStructure now) = getDefaultDataStructure now"
  by (simp add: getDefaultDataStructure_def)

lemma default_is_object: "\<exists>dps. getDefaultDataStructure now = JObj dps"
  by (simp add: getDefaultDataStructure_def)

lemma default_metadata:
  "getDefaultDataStructure now = JObj dps \<Longrightarrow> \<exists>m. map_of dps ''metadata'' = Some (JObj m)"
  by (auto simp add: getDefaultDataStructure_def)

lemma has_default_keys_kept:
  assumes "getDefaultDataStructure now = JObj dps" "sections_kept dps qs"
  shows "has_default_keys now (JObj qs)"
proof -
  from assms(1) have ao: "all_objects dps" and di: "distinct (map fst dps)"
    using default_objects by blast+
  have "has_own (JObj qs) sec
          \<and> (case get_prop (JObj qs) sec of
                Inr sv \<Rightarrow> list_all (\<lambda>(field, x). has_own sv field) (own_props dflt)
              | Inl e \<Rightarrow> False)"
    if "(sec, dflt) \<in> set dps" for sec dflt
  proof -
    from that di have m: "map_of dps sec = Some dflt" by simp
    with ao obtain fs where d: "dflt = JObj fs" by (auto simp add: all_objects_def)
    with m assms(2) obtain sec' where q: "map_of qs sec = Some (JObj sec')" and kk: "keys_kept fs sec'"
      by (auto simp add: sections_kept_def)
    have "list_all (\<lambda>(field, x). has_own (JObj sec') field) fs"
      unfolding list_all_iff
    proof (intro ballI)
      fix fx assume "fx \<in> set fs"
      then have "map_of fs (fst fx) \<noteq> None"
        by (metis map_of_eq_None_iff image_eqI)
      with kk have "map_of sec' (fst fx) \<noteq> None" by (simp add: keys_kept_def)
      then show "case fx of (field, x) \<Rightarrow> has_own (JObj sec') field" by (cases fx) simp
    qed
    with q d show ?thesis by simp
  qed
  then show ?thesis
    unfolding has_default_keys_def assms(1) list_all_iff by auto
qed

lemma mergeWithDefaults_complete:
  assumes "plain_document stored"
  shows "\<exists>d. mergeWithDefaults now stored = Inr d \<and> has_default_keys now d"
proof -
  from assms obtain ps where st: "stored = JObj ps"
    and ps: "list_all (\<lambda>(k, sv). k \<notin> set inherited_names \<and> flat_object sv) ps"
    by (auto simp add: plain_document_def split: jsval.splits)
  obtain dps where dps: "getDefaultDataStructure now = JObj dps" using default_is_object by blast
  then have ao: "all_objects dps" using default_objects by blast
  from merge_sections [OF ps ao] obtain tps where
    m: "mergeObjects (JObj dps) ps = Inr (JObj tps)" and "all_objects tps" and sk: "sections_kept dps tps"
    by blast
  from default_metadata [OF dps] obtain md where "map_of dps ''metadata'' = Some (JObj md)" by blast
  with sk obtain md' where md': "map_of tps ''metadata'' = Some (JObj md')"
    by (auto simp add: sections_kept_def)
  let ?final = "AList.update ''metadata'' (JObj (AList.update ''lastModified'' (JStr now) md')) tps"
  have a: "assign2 (JObj tps) ''metadata'' ''lastModified'' (JStr now) = Inr (JObj ?final)"
    using md' by (simp add: assign2_def and_then_def)
  have "sections_kept tps ?final"
    by (rule sections_kept_update) (use md' in \<open>simp add: keys_kept_update\<close>)
  with sk have "sections_kept dps ?final" by (rule sections_kept_trans)
  then have "has_default_keys now (JObj ?final)" using dps by (rule has_default_keys_kept [rotated])
  moreover from deepClone_default [of now] have dc: "deepClone (JObj dps) = JObj dps"
    unfolding dps .
  have "mergeWithDefaults now stored = Inr (JObj ?final)"
    using m a by (simp add: mergeWithDefaults_def st dc dps and_then_def del: deepClone.simps)
  ultimately show ?thesis by blast
qed

lemma every_hasOwnProperty_total:
  "map_of ps ''hasOwnProperty'' = None \<Longrightarrow> \<exists>b. every_hasOwnProperty (JObj ps) ss = Inr b"
  by (induction ss) (auto simp add: and_then_def)

text \<open>
  On a plain document \<open>loadData\<close> does not throw and returns a document with every section
  and every field of the default structure.
\<close>

lemma loadData_complete:
  assumes "plain_document stored"
  shows "\<exists>d. loadData now stored = Inr d \<and> has_default_keys now d"
proof -
  have dflt: "has_default_keys now (getDefaultDataStructure now)"
  proof -
    obtain dps where dps: "getDefaultDataStructure now = JObj dps" using default_is_object by blast
    then show ?thesis using has_default_keys_kept [OF dps sections_kept_refl] by simp
  qed
  from assms obtain ps where st: "stored = JObj ps"
    and ps: "list_all (\<lambda>(k, sv). k \<notin> set inherited_names \<and> flat_object sv) ps"
    by (auto simp add: plain_document_def split: jsval.splits)
  have "map_of ps ''hasOwnProperty'' = None"
  proof (rule ccontr)
    assume "map_of ps ''hasOwnProperty'' \<noteq> None"
    then obtain v where "(''hasOwnProperty'', v) \<in> set ps" by (auto dest: map_of_SomeD)
    with ps show False by (auto simp add: list_all_iff inherited_names_def)
  qed
  then obtain b where v: "validateDataStructure stored = Inr b"
    using every_hasOwnProperty_total by (auto simp add: validateDataStructure_def st)
  show ?thesis
  proof (cases b)
    case True
    with v show ?thesis using mergeWithDefaults_complete [OF assms, of now]
      by (simp add: loadData_def st and_then_def)
  next
    case False
    with v dflt show ?thesis by (simp add: loadData_def st and_then_def)
  qed
qed


section \<open>Evaluations of the document model, the form and the ledger\<close>

text \<open>
  An import that fails on the text, on the shape check or in the merge leaves the document.
\<close>

lemma importData_merge_atomic:
  "importData parse now d payload True = Inr (False, d') \<Longrightarrow> d' = d"
  by (auto simp add: importData_def returns_bool_def run_def split: sum.splits if_splits jsval.splits)

lemma importData_invalid_atomic:
  "importData parse now d payload merge = Inr (False, d') \<Longrightarrow>
   (\<exists>text e. payload = JStr text \<and> parse text = Inl e)
   \<or> (\<exists>text v. payload = JStr text \<and> parse text = Inr v \<and> validateDataStructure v \<noteq> Inr True)
   \<or> ((\<forall>text. payload \<noteq> JStr text) \<and> validateDataStructure payload \<noteq> Inr True) \<Longrightarrow>
   d' = d"
  by (auto simp add: importData_def returns_bool_def run_def split: sum.splits if_splits jsval.splits)

text \<open>
  Claim C3, at an import that fails after the document has been replaced. The payload
  passes the shape check; without merging, \<open>importData\<close> assigns it to \<open>this.data\<close> and
  then throws on the time stamp of its \<open>null\<close> metadata, so it returns \<open>false\<close> with the
  payload as the document. With merging, the same payload fails before the assignment and
  the document stays.
\<close>

theorem importData_replace_not_atomic:
  "validateDataStructure null_metadata_payload = Inr True
   \<and> importData parse now (getDefaultDataStructure created) null_metadata_payload False
       = Inr (False, null_metadata_payload)
   \<and> null_metadata_payload \<noteq> getDefaultDataStructure created
   \<and> importData parse now (getDefaultDataStructure created) null_metadata_payload True
       = Inr (False, getDefaultDataStructure created)"
  by (simp add: importData_def null_metadata_payload_def validateDataStructure_def requiredSections_def
      and_then_def run_def assign2_def returns_bool_def mergeWithDefaults_def getDefaultDataStructure_def
      inherited_names_def)

theorem importData_replace_not_atomic_witness:
  "validateDataStructure null_metadata_payload = Inr True
   \<and> importData (\<lambda>text. Inl SyntaxError) ''2026-01-01T10:05:00.000Z''
         (getDefaultDataStructure ''2026-01-01T10:00:00.000Z'') null_metadata_payload False
       = Inr (False, null_metadata_payload)
   \<and> null_metadata_payload \<noteq> getDefaultDataStructure ''2026-01-01T10:00:00.000Z''"
  using importData_replace_not_atomic [of "\<lambda>text. Inl SyntaxError" "''2026-01-01T10:05:00.000Z''"
      "''2026-01-01T10:00:00.000Z''"]
  by simp

text \<open>
  Claim C2, at stored values that pass the shape check with a section that is no
  object. With an empty string for \<open>focus\<close>, \<open>loadData\<close> returns a document whose \<open>focus\<close>
  is that string: the fields of the section are gone, while the default structure itself
  has every key. With \<open>null\<close> for \<open>metadata\<close>, \<open>loadData\<close> throws.
\<close>

theorem loadData_loses_fields:
  "validateDataStructure empty_focus_stored = Inr True
   \<and> \<not> isl (loadData now empty_focus_stored)
   \<and> get_prop (projr (loadData now empty_focus_stored)) ''focus'' = Inr (JStr [])
   \<and> \<not> has_own (JStr []) ''wantMore''
   \<and> \<not> has_default_keys now (projr (loadData now empty_focus_stored))
   \<and> has_default_keys now (getDefaultDataStructure now)
   \<and> validateDataStructure null_metadata_payload = Inr True
   \<and> loadData now null_metadata_payload = Inl TypeError"
  by (simp add: loadData_def empty_focus_stored_def null_metadata_payload_def validateDataStructure_def
      requiredSections_def and_then_def assign2_def mergeWithDefaults_def getDefaultDataStructure_def
      inherited_names_def has_default_keys_def own_index_def)

theorem loadData_loses_fields_witness:
  "validateDataStructure empty_focus_stored = Inr True
   \<and> get_prop (projr (loadData ''2026-01-01T10:00:00.000Z'' empty_focus_stored)) ''focus'' = Inr (JStr [])
   \<and> \<not> has_default_keys ''2026-01-01T10:00:00.000Z''
         (projr (loadData ''2026-01-01T10:00:00.000Z'' empty_focus_stored))"
  using loadData_loses_fields [of "''2026-01-01T10:00:00.000Z''"]
  by simp

text \<open>
  For a step with required fields the recomputed progress is completed over total, times 100.
\<close>

lemma updateSectionProgress_ratio:
  "getRequiredFieldsForSection section = Inr flds \<Longrightarrow> flds \<noteq> [] \<Longrightarrow>
   updateSectionProgress pt section =
     Inr (of_nat (length (completed_of pt section flds)) / of_nat (length flds) * 100)"
  by (simp add: updateSectionProgress_def and_then_def)

text \<open>
  Claim C7, at a tracked edit on a step without required fields. A field that carries the
  \<open>required\<close> attribute is tracked while the tracker is on the mapping step: the
  recomputed progress of that step is 0 (class \<open>progress-0\<close>), where the completion summary
  gives 100 for the same step and the same ledger. The same holds for the welcome step.
\<close>

theorem section_progress_disagrees:
  "trackFieldCompletion tracker_on_mapping
       \<lparr>field_id = ''ahaReflection'', field_text = ''it clicked'', marked_required = True\<rparr>
     = (tracker_on_mapping\<lparr>completedSections := [''mapping.ahaReflection'']\<rparr>, Some (Inr 0))
   \<and> progress_class 0 = ''progress-0''
   \<and> section_summary (tracker_on_mapping\<lparr>completedSections := [''mapping.ahaReflection'']\<rparr>) ''mapping''
     = Inr (0, 0, 100)
   \<and> updateSectionProgress new_tracker ''welcome'' = Inr 0
   \<and> section_summary new_tracker ''welcome'' = Inr (0, 0, 100)"
  by (simp add: trackFieldCompletion_def tracker_on_mapping_def new_tracker_def getCurrentSection_def
      updateFieldCompletionStatus_def updateSectionProgress_def getRequiredFieldsForSection_def
      lookup_table_def inherited_names_def and_then_def set_add_def completed_of_def
      progress_class_def section_summary_def trim_def is_space_def Let_def)


text \<open>A default is never written into an element whose value is not empty.\<close>

lemma autoPopulate_keeps_filled:
  "getElementById page fieldId = Some element \<Longrightarrow> truthy (elem_value element) \<Longrightarrow>
   autoPopulate page ((fieldId, auto) # rest) = autoPopulate page rest"
  by simp

lemma entered_focus:
  "get_prop entered_document ''focus'' = Inr (JObj
         [(''lifeChallenge'', JStr []), (''lifeAreas'', JArr []),
          (''otherArea'', JStr []), (''wantMore'', JStr ''I want to feel less rushed'')])"
  and entered_connections:
  "get_prop entered_document ''connections'' = get_prop (getDefaultDataStructure []) ''connections''"
  and entered_mapping:
  "get_prop entered_document ''mapping'' = get_prop (getDefaultDataStructure []) ''mapping''"
  and entered_goals:
  "get_prop entered_document ''goals'' = get_prop (getDefaultDataStructure []) ''goals''"
  by (simp_all add: entered_document_def saveField_def returns_bool_def next_stmt_def run_def ensure_section_def
    assign2_def and_then_def getDefaultDataStructure_def)

lemma entered_auto:
  "getAutoPopulationData entered_document ''mapping'' = Inr (JObj
     [(''mapFocus'', JStr ''I want to feel less rushed''), (''mapEnergyGivers'', JStr []),
      (''mapEnergyDrainers'', JStr []), (''mapPattern'', JStr [])])"
  by (simp add: getAutoPopulationData_def getField_def try_catch_def and_then_def entered_focus
      entered_connections entered_mapping entered_goals getDefaultDataStructure_def filter_join_def)

lemma entered_section:
  "getSection entered_document ''mapping'' = Inr (JObj
         [(''mapFocus'', JStr []), (''mapEnergyGivers'', JStr []),
          (''mapEnergyDrainers'', JStr []), (''mapPattern'', JStr []),
          (''strongestNegative'', JStr []), (''strongestPositive'', JStr []),
          (''chainReaction'', JStr []), (''leveragePoint'', JStr [])])"
  by (simp add: getSection_def and_then_def entered_mapping getDefaultDataStructure_def)

lemma auto_page:
  "setupAutoPopulation entered_document mapping_page ''mapping'' = Inr
     [(''mapFocus'', \<lparr>kind = InputText, elem_value = JStr ''I want to feel less rushed'', checked = False\<rparr>),
      (''mapEnergyGivers'', \<lparr>kind = OtherElement, elem_value = JStr [], checked = False\<rparr>),
      (''mapEnergyDrainers'', \<lparr>kind = OtherElement, elem_value = JStr [], checked = False\<rparr>),
      (''mapPattern'', \<lparr>kind = OtherElement, elem_value = JStr [], checked = False\<rparr>),
      (''strongestNegative'', \<lparr>kind = TextArea, elem_value = JStr [], checked = False\<rparr>),
      (''strongestPositive'', \<lparr>kind = TextArea, elem_value = JStr [], checked = False\<rparr>),
      (''chainReaction'', \<lparr>kind = TextArea, elem_value = JStr [], checked = False\<rparr>),
      (''leveragePoint'', \<lparr>kind = TextArea, elem_value = JStr [], checked = False\<rparr>)]"
  by (simp add: setupAutoPopulation_def entered_auto and_then_def mapping_page_def getElementById_def
      set_value_def control_string_def)

text \<open>
  Claim C1, at the scenario of the specification. With \<open>I want to feel less rushed\<close>
  stored for \<open>focus.wantMore\<close>, \<open>setupAutoPopulation\<close> puts that text into the empty
  \<open>mapFocus\<close> input of the mapping step, and the rest of \<open>populateSectionData\<close> then writes
  the stored \<open>mapping.mapFocus\<close>, the empty string of the default structure, over it: the
  input ends up empty.
\<close>

theorem auto_population_overwritten:
  "getField entered_document ''focus'' ''wantMore'' (JStr []) = Inr (JStr ''I want to feel less rushed'')
   \<and> map_option elem_value
        (getElementById (projr (setupAutoPopulation entered_document mapping_page ''mapping'')) ''mapFocus'')
       = Some (JStr ''I want to feel less rushed'')
   \<and> \<not> isl (populateSectionData entered_document mapping_page ''mapping'')
   \<and> map_option elem_value
        (getElementById (projr (populateSectionData entered_document mapping_page ''mapping'')) ''mapFocus'')
       = Some (JStr [])"
  by (simp add: populateSectionData_def entered_section auto_page and_then_def getElementById_def
      restore_field_def set_value_def control_string_def getField_def try_catch_def entered_focus)

section \<open>Properties of the insight requestor\<close>

lemma and_then_Inl:
  "and_then m f = Inl e \<Longrightarrow> m = Inl e \<or> (\<exists>x. m = Inr x \<and> f x = Inl e)"
  by (cases m) (simp_all add: and_then_def)

lemma to_string_error:
  "to_string v = Inl e \<Longrightarrow> e = TypeError"
  "join_elements vs = Inl e \<Longrightarrow> e = TypeError"
  by (induction v and vs rule: to_string_join_elements.induct)
     (auto simp add: and_then_def split: if_splits sum.splits)

lemma response_text_error:
  assumes "response_text b = Inl e"
  shows "e \<noteq> Unmodelled"
proof -
  have k: "''candidates'' \<notin> set inherited_names" "''0'' \<notin> set inherited_names"
    "''content'' \<notin> set inherited_names" "''parts'' \<notin> set inherited_names"
    "''text'' \<notin> set inherited_names"
    by (simp_all add: inherited_names_def)
  from assms show ?thesis
    unfolding response_text_def
    by (auto dest!: and_then_Inl get_prop_modelled [OF k(1)] get_prop_modelled [OF k(2)]
          get_prop_modelled [OF k(3)] get_prop_modelled [OF k(4)] get_prop_modelled [OF k(5)]
          split: if_splits)
qed

lemma formatInsightsResponse_error:
  "formatInsightsResponse r = Inl e \<Longrightarrow> e = TypeError"
  by (cases r) (simp_all add: formatInsightsResponse_def Let_def split: if_splits)

lemma makeAPIRequest_error:
  assumes "fst (makeAPIRequest fetch ai prompt) = Inl e"
  shows "e \<noteq> Unmodelled"
  using assms
  by (auto simp add: makeAPIRequest_def Let_def split: sum.splits fetch_result.splits if_splits option.splits
        dest: to_string_error response_text_error)

lemma caught:
  assumes "\<And>e. m = Inl e \<Longrightarrow> e \<noteq> Unmodelled"
  shows "\<exists>x. try_catch m (\<lambda>e. Inr y) = Inr x"
  using assms by (cases m) (simp_all add: try_catch_def)

lemma format_nonstring: "(\<forall>s. v \<noteq> JStr s) \<Longrightarrow> formatInsightsResponse v = Inl TypeError"
  by (cases v) (simp_all add: formatInsightsResponse_def)

lemma insight_never_rejects:
  assumes "isAvailable ai" "buildInfluencesPrompt data = Inr prompt"
  shows "\<exists>text. fst (generateInfluencesInsights fetch ai data) = Inr text"
proof -
  have "\<And>e. and_then (fst (makeAPIRequest fetch ai prompt)) formatInsightsResponse = Inl e
          \<Longrightarrow> e \<noteq> Unmodelled"
    by (auto dest!: and_then_Inl dest: makeAPIRequest_error formatInsightsResponse_error)
  then have "\<exists>x. try_catch (and_then (fst (makeAPIRequest fetch ai prompt)) formatInsightsResponse)
                (\<lambda>e. Inr (getFallbackMessage ''insights_error'')) = Inr x"
    by (rule caught)
  with assms show ?thesis
    by (simp add: generateInfluencesInsights_def Let_def)
qed

lemma insight_error_fallback:
  assumes "isAvailable ai" "buildInfluencesPrompt data = Inr prompt" "to_string (apiKey ai) = Inr key"
    and "req = \<lparr>url = baseUrl ai @ ''?key='' @ key, prompt_text = prompt\<rparr>"
    and "fetch req = Rejected
          \<or> (\<exists>body. fetch req = Responded False body)
          \<or> fetch req = Responded True None
          \<or> (\<exists>b. fetch req = Responded True (Some b) \<and> (\<forall>s. response_text b \<noteq> Inr (JStr s)))"
  shows "generateInfluencesInsights fetch ai data = (Inr (getFallbackMessage ''insights_error''), [req])"
proof -
  from assms(5) consider
      (rejected) "fetch req = Rejected"
    | (status) body where "fetch req = Responded False body"
    | (nojson) "fetch req = Responded True None"
    | (nopath) b where "fetch req = Responded True (Some b)" "\<forall>s. response_text b \<noteq> Inr (JStr s)"
    by blast
  then have "(\<exists>e. and_then (fst (makeAPIRequest fetch ai prompt)) formatInsightsResponse = Inl e
               \<and> e \<noteq> Unmodelled) \<and> snd (makeAPIRequest fetch ai prompt) = [req]"
  proof cases
    case rejected
    with assms show ?thesis by (simp add: makeAPIRequest_def and_then_def)
  next
    case status
    with assms show ?thesis by (simp add: makeAPIRequest_def and_then_def)
  next
    case nojson
    with assms show ?thesis by (simp add: makeAPIRequest_def and_then_def)
  next
    case nopath
    with assms have m: "makeAPIRequest fetch ai prompt = (response_text b, [req])"
      by (simp add: makeAPIRequest_def)
    show ?thesis
    proof (cases "response_text b")
      case (Inl e)
      then show ?thesis using response_text_error [OF Inl] by (simp add: m and_then_def)
    next
      case (Inr v)
      with nopath(2) have "\<forall>s. v \<noteq> JStr s" by auto
      then have "formatInsightsResponse v = Inl TypeError" by (rule format_nonstring)
      with Inr show ?thesis by (simp add: m and_then_def)
    qed
  qed
  with assms show ?thesis
    by (auto simp add: generateInfluencesInsights_def Let_def try_catch_def)
qed

text \<open>
  Claim C8. Without a credential \<open>generateInfluencesInsights\<close> resolves to the fixed
  fallback text and sends no request. With a credential and a prompt that can be built it
  never rejects; and when the one request it sends is rejected by the network, answered
  with a non-success status, answered with a body that is not JSON or answered with a body
  whose text path does not lead to a string, it resolves to the fixed error text, which is
  a different text.
\<close>

theorem insight_fallbacks:
  "(\<not> isAvailable ai \<longrightarrow>
      generateInfluencesInsights fetch ai data = (Inr (getFallbackMessage ''insights''), []))
   \<and> (isAvailable ai \<and> buildInfluencesPrompt data = Inr prompt \<longrightarrow>
        (\<exists>text. fst (generateInfluencesInsights fetch ai data) = Inr text))
   \<and> (isAvailable ai \<and> buildInfluencesPrompt data = Inr prompt \<and> to_string (apiKey ai) = Inr key
       \<and> req = \<lparr>url = baseUrl ai @ ''?key='' @ key, prompt_text = prompt\<rparr>
       \<and> (fetch req = Rejected
          \<or> (\<exists>body. fetch req = Responded False body)
          \<or> fetch req = Responded True None
          \<or> (\<exists>b. fetch req = Responded True (Some b) \<and> (\<forall>s. response_text b \<noteq> Inr (JStr s))))
       \<longrightarrow> generateInfluencesInsights fetch ai data =
             (Inr (getFallbackMessage ''insights_error''), [req]))
   \<and> getFallbackMessage ''insights'' \<noteq> getFallbackMessage ''insights_error''"
proof (intro conjI)
  show "\<not> isAvailable ai \<longrightarrow>
      generateInfluencesInsights fetch ai data = (Inr (getFallbackMessage ''insights''), [])"
    by (simp add: generateInfluencesInsights_def)
  show "isAvailable ai \<and> buildInfluencesPrompt data = Inr prompt \<longrightarrow>
        (\<exists>text. fst (generateInfluencesInsights fetch ai data) = Inr text)"
    using insight_never_rejects by blast
  show "isAvailable ai \<and> buildInfluencesPrompt data = Inr prompt \<and> to_string (apiKey ai) = Inr key
       \<and> req = \<lparr>url = baseUrl ai @ ''?key='' @ key, prompt_text = prompt\<rparr>
       \<and> (fetch req = Rejected
          \<or> (\<exists>body. fetch req = Responded False body)
          \<or> fetch req = Responded True None
          \<or> (\<exists>b. fetch req = Responded True (Some b) \<and> (\<forall>s. response_text b \<noteq> Inr (JStr s))))
       \<longrightarrow> generateInfluencesInsights fetch ai data =
             (Inr (getFallbackMessage ''insights_error''), [req])"
    using insight_error_fallback [of ai data prompt key req fetch] by blast
  show "getFallbackMessage ''insights'' \<noteq> getFallbackMessage ''insights_error''"
    by (simp add: getFallbackMessage_def messages_def)
qed

lemma prompt_of_empty: "\<not> isl (buildInfluencesPrompt (JObj []))"
  by (simp add: buildInfluencesPrompt_def or_not_specified_def and_then_def inherited_names_def)

theorem insight_fallbacks_witness:
  "isAvailable demo_ai
   \<and> \<not> isl (buildInfluencesPrompt (JObj []))
   \<and> generateInfluencesInsights failing_fetch demo_ai (JObj []) =
       (Inr (getFallbackMessage ''insights_error''),
        [\<lparr>url = baseUrl demo_ai @ ''?key=k'', prompt_text = projr (buildInfluencesPrompt (JObj []))\<rparr>])
   \<and> \<not> isAvailable (demo_ai\<lparr>apiKey := JNull\<rparr>)
   \<and> generateInfluencesInsights failing_fetch (demo_ai\<lparr>apiKey := JNull\<rparr>) (JObj []) =
       (Inr (getFallbackMessage ''insights''), [])"
proof -
  let ?p = "projr (buildInfluencesPrompt (JObj []))"
  let ?req = "\<lparr>url = baseUrl demo_ai @ ''?key=k'', prompt_text = ?p\<rparr>"
  have b: "buildInfluencesPrompt (JObj []) = Inr ?p"
    using prompt_of_empty by simp
  have av: "isAvailable demo_ai" by (simp add: demo_ai_def isAvailable_def)
  have k: "to_string (apiKey demo_ai) = Inr ''k''" by (simp add: demo_ai_def)
  have r: "?req = \<lparr>url = baseUrl demo_ai @ ''?key='' @ ''k'', prompt_text = ?p\<rparr>" by simp
  have f: "\<exists>body. failing_fetch ?req = Responded False body" by (simp add: failing_fetch_def)
  have nav: "\<not> isAvailable (demo_ai\<lparr>apiKey := JNull\<rparr>)" by (simp add: isAvailable_def)
  from insight_fallbacks [of demo_ai failing_fetch "JObj []" ?p "''k''" ?req] av b k r f
  have 1: "generateInfluencesInsights failing_fetch demo_ai (JObj []) =
       (Inr (getFallbackMessage ''insights_error''), [?req])"
    by blast
  from insight_fallbacks [of "demo_ai\<lparr>apiKey := JNull\<rparr>" failing_fetch "JObj []"] nav
  have 2: "generateInfluencesInsights failing_fetch (demo_ai\<lparr>apiKey := JNull\<rparr>) (JObj []) =
       (Inr (getFallbackMessage ''insights''), [])"
    by blast
  from av prompt_of_empty 1 nav 2 show ?thesis by blast
qed

end
